theory Spec2Isabelle
  imports Main
begin

section \<open>Python text\<close>

text \<open>
  A Python \<open>str\<close> is a sequence of Unicode code points, so a text is a list of
  natural numbers. Literals of the source that stay within ASCII are written with
  \<open>ascii\<close>; the accented letters of the Portuguese literals are given by their code
  points (for instance 0xC7 for C with cedilla).
\<close>

type_synonym ustr = "nat list"

definition ascii :: "string \<Rightarrow> ustr" where
  "ascii s = map of_char s"

text \<open>
  \<open>str.isspace\<close> for one code point: the white space of Unicode, which
  \<open>str.strip()\<close> removes from both ends.
\<close>

definition isspace :: "nat \<Rightarrow> bool" where
  "isspace c \<longleftrightarrow>
     (9 \<le> c \<and> c \<le> 13) \<or> (28 \<le> c \<and> c \<le> 32) \<or> c = 0x85 \<or> c = 0xA0 \<or> c = 0x1680
     \<or> (0x2000 \<le> c \<and> c \<le> 0x200A) \<or> c = 0x2028 \<or> c = 0x2029 \<or> c = 0x202F
     \<or> c = 0x205F \<or> c = 0x3000"

definition py_strip :: "ustr \<Rightarrow> ustr" where
  "py_strip s = rev (dropWhile isspace (rev (dropWhile isspace s)))"

text \<open>
  \<open>str.upper()\<close>, code point by code point. The table is the Unicode one for
  U+0000 to U+00FF (Basic Latin and Latin-1 Supplement, the range of the texts this
  repository handles): the sharp s becomes \<open>SS\<close>, the micro sign and the y with
  diaeresis leave the range, the ordinal indicators 0xAA and 0xBA have no upper case.
  Code points above U+00FF are outside the table and are left as they are, also the
  cased letters among them, which Python maps; every text that is evaluated below lies
  within the table.
\<close>

definition upper_cp :: "nat \<Rightarrow> ustr" where
  "upper_cp c =
     (if 0x61 \<le> c \<and> c \<le> 0x7A then [c - 32]
      else if c = 0xB5 then [0x39C]
      else if c = 0xDF then [0x53, 0x53]
      else if 0xE0 \<le> c \<and> c \<le> 0xFE \<and> c \<noteq> 0xF7 then [c - 32]
      else if c = 0xFF then [0x178]
      else [c])"

definition py_upper :: "ustr \<Rightarrow> ustr" where
  "py_upper s = concat (map upper_cp s)"

text \<open>\<open>needle in hay\<close> on texts: \<open>needle\<close> occurs as a contiguous run of \<open>hay\<close>.\<close>

fun startswith :: "ustr \<Rightarrow> ustr \<Rightarrow> bool" where
  "startswith s [] = True"
| "startswith [] (p # ps) = False"
| "startswith (c # cs) (p # ps) = (c = p \<and> startswith cs ps)"

fun str_contains :: "ustr \<Rightarrow> ustr \<Rightarrow> bool" where
  "str_contains [] needle = (needle = [])"
| "str_contains (c # cs) needle = (startswith (c # cs) needle \<or> str_contains cs needle)"

text \<open>
  \<open>Series.str.contains('A|B|C')\<close> with literal alternatives: the regular expression
  matches when one of the alternatives occurs in the text.
\<close>

definition contains_any :: "ustr \<Rightarrow> ustr list \<Rightarrow> bool" where
  "contains_any s alts = list_ex (str_contains s) alts"

section \<open>Name normalisation (\<open>normalize_name\<close>)\<close>

text \<open>
  \<open>unicodedata.normalize('NFKD', s)\<close>: the full compatibility decomposition of every
  code point. The table holds every code point of U+0000 to U+00FF that has a
  decomposition, and U+0178, which \<open>py_upper\<close> can produce; a code point without an
  entry decomposes to itself, also those above U+00FF that Unicode decomposes, so the
  table is exact for texts within U+0000 to U+00FF. NFKD also sorts runs of combining
  marks; all of them are
  beyond ASCII and are dropped by the ASCII encoding that follows, so the sorting cannot
  change what \<open>normalize_name\<close> returns and is left out.
\<close>

definition nfkd_table :: "(nat \<times> ustr) list" where
  "nfkd_table =
    [(0xA0, [0x20]), (0xA8, [0x20, 0x308]), (0xAA, [0x61]), (0xAF, [0x20, 0x304]),
     (0xB2, [0x32]), (0xB3, [0x33]), (0xB4, [0x20, 0x301]), (0xB5, [0x3BC]),
     (0xB8, [0x20, 0x327]), (0xB9, [0x31]), (0xBA, [0x6F]),
     (0xBC, [0x31, 0x2044, 0x34]), (0xBD, [0x31, 0x2044, 0x32]), (0xBE, [0x33, 0x2044, 0x34]),
     (0xC0, [0x41, 0x300]), (0xC1, [0x41, 0x301]), (0xC2, [0x41, 0x302]),
     (0xC3, [0x41, 0x303]), (0xC4, [0x41, 0x308]), (0xC5, [0x41, 0x30A]),
     (0xC7, [0x43, 0x327]),
     (0xC8, [0x45, 0x300]), (0xC9, [0x45, 0x301]), (0xCA, [0x45, 0x302]), (0xCB, [0x45, 0x308]),
     (0xCC, [0x49, 0x300]), (0xCD, [0x49, 0x301]), (0xCE, [0x49, 0x302]), (0xCF, [0x49, 0x308]),
     (0xD1, [0x4E, 0x303]),
     (0xD2, [0x4F, 0x300]), (0xD3, [0x4F, 0x301]), (0xD4, [0x4F, 0x302]),
     (0xD5, [0x4F, 0x303]), (0xD6, [0x4F, 0x308]),
     (0xD9, [0x55, 0x300]), (0xDA, [0x55, 0x301]), (0xDB, [0x55, 0x302]), (0xDC, [0x55, 0x308]),
     (0xDD, [0x59, 0x301]),
     (0xE0, [0x61, 0x300]), (0xE1, [0x61, 0x301]), (0xE2, [0x61, 0x302]),
     (0xE3, [0x61, 0x303]), (0xE4, [0x61, 0x308]), (0xE5, [0x61, 0x30A]),
     (0xE7, [0x63, 0x327]),
     (0xE8, [0x65, 0x300]), (0xE9, [0x65, 0x301]), (0xEA, [0x65, 0x302]), (0xEB, [0x65, 0x308]),
     (0xEC, [0x69, 0x300]), (0xED, [0x69, 0x301]), (0xEE, [0x69, 0x302]), (0xEF, [0x69, 0x308]),
     (0xF1, [0x6E, 0x303]),
     (0xF2, [0x6F, 0x300]), (0xF3, [0x6F, 0x301]), (0xF4, [0x6F, 0x302]),
     (0xF5, [0x6F, 0x303]), (0xF6, [0x6F, 0x308]),
     (0xF9, [0x75, 0x300]), (0xFA, [0x75, 0x301]), (0xFB, [0x75, 0x302]), (0xFC, [0x75, 0x308]),
     (0xFD, [0x79, 0x301]), (0xFF, [0x79, 0x308]), (0x178, [0x59, 0x308])]"

definition nfkd_cp :: "nat \<Rightarrow> ustr" where
  "nfkd_cp c = (case map_of nfkd_table c of Some d \<Rightarrow> d | None \<Rightarrow> [c])"

definition nfkd :: "ustr \<Rightarrow> ustr" where
  "nfkd s = concat (map nfkd_cp s)"

text \<open>\<open>s.encode('ASCII', 'ignore').decode('ASCII')\<close> keeps the code points below 128.\<close>

definition encode_ascii_ignore :: "ustr \<Rightarrow> ustr" where
  "encode_ascii_ignore s = filter (\<lambda>c. c < 128) s"

text \<open>
  \<open>DemandasProcessor.normalize_name\<close> and \<open>DemandasAnalyzer.normalize_name\<close> are the
  same function: a missing value (\<open>pd.isna\<close>) is returned as it is, a text is
  stripped, upper-cased, decomposed and folded to ASCII, in this order.
\<close>

definition normalize_text :: "ustr \<Rightarrow> ustr" where
  "normalize_text s = encode_ascii_ignore (nfkd (py_upper (py_strip s)))"

definition normalize_name :: "ustr option \<Rightarrow> ustr option" where
  "normalize_name name = (case name of None \<Rightarrow> None | Some s \<Rightarrow> Some (normalize_text s))"

section \<open>Team classification\<close>

text \<open>
  \<open>DataProcessor.TEAM_MAPPING\<close> is a dict literal; iteration follows the order in which
  its keys are written, so it is an association list. \<open>_map_to_team\<close> returns the key
  of the first entry whose member list holds the name, else \<open>OUTROS\<close>.
\<close>

definition TEAM_MAPPING :: "(ustr \<times> ustr list) list" where
  "TEAM_MAPPING =
     [(ascii ''JULIO'', [ascii ''JULIO'']),
      (ascii ''LEANDRO'', [ascii ''LEANDRO'']),
      (ascii ''ADRIANO'', [ascii ''ADRIANO''])]"

fun map_to_team_loop :: "(ustr \<times> ustr list) list \<Rightarrow> ustr \<Rightarrow> ustr" where
  "map_to_team_loop [] responsavel = ascii ''OUTROS''"
| "map_to_team_loop ((team, members) # rest) responsavel =
     (if responsavel \<in> set members then team else map_to_team_loop rest responsavel)"

definition map_to_team :: "ustr \<Rightarrow> ustr" where
  "map_to_team responsavel = map_to_team_loop TEAM_MAPPING responsavel"

text \<open>
  The sentinel that \<open>process_dataframe\<close> writes into empty cells, N-A-tilde-O INFORMADO.
\<close>

definition NAO_INFORMADO :: ustr where
  "NAO_INFORMADO = ascii ''N'' @ [0xC3] @ ascii ''O INFORMADO''"

text \<open>
  The rosters of \<open>DemandasProcessor.__init__\<close>, normalised there with
  \<open>normalize_name\<close> (0xCD is the I with acute accent of ANA LIDIA).
\<close>

definition equipe_julio :: "ustr list" where
  "equipe_julio = map normalize_text
     [ascii ''ADRIANO'', ascii ''ELISANGELA'', ascii ''FELIPE'', ascii ''IGOR'',
      ascii ''ANA GESSICA'', ascii ''ALINE'', ascii ''NUNO'', ascii ''THALISSON'',
      ascii ''LUARA'', ascii ''MATHEUS'', ascii ''JULIANE'', ascii ''POLIANA'',
      ascii ''YURI'', ascii ''ANA L'' @ [0xCD] @ ascii ''DIA'']"

definition equipe_leandro_adriano :: "ustr list" where
  "equipe_leandro_adriano = map normalize_text
     [ascii ''ALINE SALVADOR'', ascii ''AMANDA SANTANA'', ascii ''BRUNO MARIANO'',
      ascii ''EDIANE'', ascii ''FABIANA'', ascii ''GREICY'', ascii ''ITAYNNARA'',
      ascii ''IZABEL'', ascii ''JULIANA'', ascii ''JULIA'', ascii ''KATIA'',
      ascii ''MARIA BRUNA'', ascii ''MONYZA'', ascii ''SABRINA'', ascii ''SOFIA'',
      ascii ''VICTOR ADRIANO'', ascii ''VITORIA'']"

text \<open>The team labels of \<open>get_team\<close>; 0xE1 and 0xFA are the accented a and u.\<close>

definition SEM_RESPONSAVEL :: ustr where
  "SEM_RESPONSAVEL = ascii ''Sem Respons'' @ [0xE1] @ ascii ''vel''"

definition EQUIPE_JULIO :: ustr where
  "EQUIPE_JULIO = ascii ''Equipe J'' @ [0xFA] @ ascii ''lio''"

definition EQUIPE_LEANDRO_ADRIANO :: ustr where
  "EQUIPE_LEANDRO_ADRIANO = ascii ''Equipe Leandro e Adriano''"

definition OUTROS :: ustr where
  "OUTROS = ascii ''Outros''"

text \<open>
  \<open>get_team\<close> of \<open>DemandasProcessor.calculate_totals\<close>: a missing responsible is
  \<open>Sem Responsavel\<close>; otherwise the name is normalised and looked up in the roster of
  Julio first, then in the roster of Leandro and Adriano.
\<close>

definition get_team :: "ustr option \<Rightarrow> ustr" where
  "get_team resp =
     (case resp of
        None \<Rightarrow> SEM_RESPONSAVEL
      | Some s \<Rightarrow>
          (let resp' = normalize_text s in
           if resp' \<in> set equipe_julio then EQUIPE_JULIO
           else if resp' \<in> set equipe_leandro_adriano then EQUIPE_LEANDRO_ADRIANO
           else OUTROS))"

text \<open>
  The classifier in the words of the specification: the first team of an ordered roster
  whose member set holds the name, and a default label when no roster holds it.
\<close>

definition spec_first_team :: "(ustr \<times> ustr list) list \<Rightarrow> ustr \<Rightarrow> ustr \<Rightarrow> ustr" where
  "spec_first_team roster others r =
     (case find (\<lambda>(team, members). r \<in> set members) roster of
        Some (team, members) \<Rightarrow> team
      | None \<Rightarrow> others)"

section \<open>Column resolution\<close>

text \<open>
  \<open>DataProcessor.EXPECTED_COLUMNS\<close>, in the order of the dict literal. The last
  candidate of \<open>situacao\<close> is a text of two spaces.
\<close>

definition EXPECTED_COLUMNS :: "(ustr \<times> ustr list) list" where
  "EXPECTED_COLUMNS =
     [(ascii ''resolucao'',
        [ascii ''RESOLUCAO'', ascii ''DATA'', ascii ''DATA RESOLUCAO'', ascii ''DT_RESOLUCAO'',
         ascii ''RESOLU'']),
      (ascii ''responsavel'',
        [ascii ''RESPONSAVEL'', ascii ''RESP'', ascii ''ATENDENTE'', ascii ''ATEND'',
         ascii ''RESPONS'']),
      (ascii ''situacao'',
        [ascii ''SITUACAO'', ascii ''STATUS'', ascii ''SITU'', ascii ''UNNAMED: 9'',
         ascii ''  ''])]"

text \<open>
  The inner loop of \<open>identify_columns\<close>: the first target one of whose candidate names
  occurs in the upper-cased column name; the \<open>break\<close> stops at it.
\<close>

fun first_target :: "(ustr \<times> ustr list) list \<Rightarrow> ustr \<Rightarrow> ustr option" where
  "first_target [] col_upper = None"
| "first_target ((target, possible_names) # rest) col_upper =
     (if list_ex (\<lambda>name. str_contains col_upper name) possible_names then Some target
      else first_target rest col_upper)"

text \<open>
  The outer loop: every column is looked at in turn and \<open>mapping[col] = target\<close> is
  stored for each column that has a target. The dict is a map from raw column names to
  canonical field names.
\<close>

fun identify_columns_loop :: "ustr list \<Rightarrow> (ustr \<rightharpoonup> ustr) \<Rightarrow> (ustr \<rightharpoonup> ustr)" where
  "identify_columns_loop [] mapping = mapping"
| "identify_columns_loop (col # cols) mapping =
     (let col_upper = py_strip (py_upper col) in
      identify_columns_loop cols
        (case first_target EXPECTED_COLUMNS col_upper of
           None \<Rightarrow> mapping
         | Some target \<Rightarrow> mapping(col \<mapsto> target)))"

definition identify_columns :: "ustr list \<Rightarrow> (ustr \<rightharpoonup> ustr)" where
  "identify_columns cols = identify_columns_loop cols Map.empty"

text \<open>
  \<open>get_situacao_column\<close> (the same in \<open>DataService\<close> and in the dashboard script):
  the first of four names that is a column of the frame. 0xC7 and 0xC3 are the C with
  cedilla and the A with tilde of the accented spelling.
\<close>

definition possible_columns :: "ustr list" where
  "possible_columns =
     [ascii ''SITUACAO'', ascii ''SITUA'' @ [0xC7, 0xC3] @ ascii ''O'', ascii ''STATUS'',
      ascii ''ESTADO'']"

definition get_situacao_column :: "ustr list \<Rightarrow> ustr option" where
  "get_situacao_column df_columns = find (\<lambda>col. col \<in> set df_columns) possible_columns"

section \<open>Record normalisation (\<open>DataProcessor.process_dataframe\<close>)\<close>

text \<open>
  A frame read from a CSV file: distinct column labels and rows that give, for a label,
  the text of the cell or nothing for an empty cell (columns of dtype \<open>object\<close>).
\<close>

record raw_frame =
  raw_columns :: "ustr list"
  raw_rows :: "(ustr \<Rightarrow> ustr option) list"

text \<open>
  A row of the processed frame: its index in the input, the canonical fields (absent
  when the frame has no such column) and the filled text of every raw column.
\<close>

record processed_row =
  row_index :: nat
  resolucao :: "int option"
  responsavel :: "ustr option"
  equipe :: "ustr option"
  situacao :: "ustr option"
  cells :: "ustr \<Rightarrow> ustr"

text \<open>
  The exceptions of \<open>process_dataframe\<close>, by cause. After \<open>df.rename\<close> two raw columns
  bound to one canonical field carry the same label; selecting that label gives a frame
  instead of a column, on which \<open>pd.to_datetime\<close> and the \<open>.str\<close> accessor raise.
  \<open>dropna(subset=['resolucao'])\<close> raises when no column carries the label. The
  handler logs the exception and raises it again.
\<close>

datatype error = DuplicateLabel ustr | MissingLabel ustr

definition renamed :: "(ustr \<rightharpoonup> ustr) \<Rightarrow> ustr \<Rightarrow> ustr" where
  "renamed mapping col = (case mapping col of Some target \<Rightarrow> target | None \<Rightarrow> col)"

definition labelled :: "(ustr \<rightharpoonup> ustr) \<Rightarrow> ustr list \<Rightarrow> ustr \<Rightarrow> ustr list" where
  "labelled mapping cols label = filter (\<lambda>col. renamed mapping col = label) cols"

text \<open>\<open>fillna('NAO INFORMADO')\<close> followed by \<open>astype(str)\<close> on one cell.\<close>

definition fill_cell :: "ustr option \<Rightarrow> ustr" where
  "fill_cell c = (case c of None \<Rightarrow> NAO_INFORMADO | Some s \<Rightarrow> s)"

definition normalize_row ::
  "(ustr \<Rightarrow> int option) \<Rightarrow> ustr \<Rightarrow> ustr option \<Rightarrow> ustr option
     \<Rightarrow> nat \<times> (ustr \<Rightarrow> ustr option) \<Rightarrow> processed_row" where
  "normalize_row to_datetime res_col resp_col sit_col ir =
     (case ir of (i, r) \<Rightarrow>
       \<lparr> row_index = i,
         resolucao = to_datetime (fill_cell (r res_col)),
         responsavel = map_option (\<lambda>c. py_upper (py_strip (fill_cell (r c)))) resp_col,
         equipe = map_option (\<lambda>c. map_to_team (py_upper (py_strip (fill_cell (r c))))) resp_col,
         situacao = map_option (\<lambda>c. py_upper (py_strip (fill_cell (r c)))) sit_col,
         cells = (\<lambda>c. fill_cell (r c)) \<rparr>)"

text \<open>
  \<open>process_dataframe\<close>, with \<open>pd.to_datetime(_, format='%d/%m/%Y', errors='coerce')\<close>
  on one text as the parameter \<open>to_datetime\<close> (nothing stands for \<open>NaT\<close>). The steps
  are those of the source: fill the empty cells, rename the columns by
  \<open>identify_columns\<close>, parse the date, normalise responsible and status, classify the
  team, and last \<open>df.dropna(subset=['resolucao'])\<close>, which removes the rows whose date
  is \<open>NaT\<close>. The debug dictionary returned beside the frame is left out.
\<close>

definition process_dataframe ::
  "(ustr \<Rightarrow> int option) \<Rightarrow> raw_frame \<Rightarrow> error + processed_row list" where
  "process_dataframe to_datetime df =
     (let mapping = identify_columns (raw_columns df);
          res_cols = labelled mapping (raw_columns df) (ascii ''resolucao'');
          resp_cols = labelled mapping (raw_columns df) (ascii ''responsavel'');
          sit_cols = labelled mapping (raw_columns df) (ascii ''situacao'')
      in if 1 < length res_cols then Inl (DuplicateLabel (ascii ''resolucao''))
         else if 1 < length resp_cols then Inl (DuplicateLabel (ascii ''responsavel''))
         else if 1 < length sit_cols then Inl (DuplicateLabel (ascii ''situacao''))
         else (case res_cols of
                 [] \<Rightarrow> Inl (MissingLabel (ascii ''resolucao''))
               | res_col # _ \<Rightarrow>
                   Inr (filter (\<lambda>row. resolucao row \<noteq> None)
                         (map (normalize_row to_datetime res_col
                                 (case resp_cols of [] \<Rightarrow> None | c # _ \<Rightarrow> Some c)
                                 (case sit_cols of [] \<Rightarrow> None | c # _ \<Rightarrow> Some c))
                              (enumerate 0 (raw_rows df))))))"

subsection \<open>A parser for the format day/month/year\<close>

text \<open>
  An instance for \<open>to_datetime\<close>: the directives \<open>%d\<close> (one or two digits, or a
  space and a digit), \<open>%m\<close> (one or two digits) and \<open>%Y\<close> (four digits) separated by
  slashes, a date that exists in the calendar, and a result in nanoseconds since
  1970-01-01 that fits 64 bits; anything else is \<open>NaT\<close>.
\<close>

definition is_digit :: "nat \<Rightarrow> bool" where
  "is_digit c \<longleftrightarrow> 48 \<le> c \<and> c \<le> 57"

definition digits_value :: "ustr \<Rightarrow> int" where
  "digits_value ds = fold (\<lambda>c acc. 10 * acc + (int c - 48)) ds 0"

fun split_on :: "nat \<Rightarrow> ustr \<Rightarrow> ustr list" where
  "split_on sep [] = [[]]"
| "split_on sep (c # cs) =
     (if c = sep then [] # split_on sep cs
      else (case split_on sep cs of [] \<Rightarrow> [[c]] | f # fs \<Rightarrow> (c # f) # fs))"

definition is_leap :: "int \<Rightarrow> bool" where
  "is_leap y \<longleftrightarrow> y mod 4 = 0 \<and> (y mod 100 \<noteq> 0 \<or> y mod 400 = 0)"

definition days_in_month :: "int \<Rightarrow> int \<Rightarrow> int" where
  "days_in_month y m =
     (if m = 2 then (if is_leap y then 29 else 28)
      else if m = 4 \<or> m = 6 \<or> m = 9 \<or> m = 11 then 30 else 31)"

definition days_from_civil :: "int \<Rightarrow> int \<Rightarrow> int \<Rightarrow> int" where
  "days_from_civil y m d =
     (let y' = (if m \<le> 2 then y - 1 else y);
          era = y' div 400;
          yoe = y' - era * 400;
          doy = (153 * (if 2 < m then m - 3 else m + 9) + 2) div 5 + d - 1;
          doe = yoe * 365 + yoe div 4 - yoe div 100 + doy
      in era * 146097 + doe - 719468)"

definition ns_per_day :: int where
  "ns_per_day = 86400000000000"

definition day_field :: "ustr \<Rightarrow> bool" where
  "day_field d \<longleftrightarrow>
     (d \<noteq> [] \<and> length d \<le> 2 \<and> list_all is_digit d)
     \<or> (case d of [sp, c] \<Rightarrow> sp = 32 \<and> 49 \<le> c \<and> c \<le> 57 | _ \<Rightarrow> False)"

definition strptime_dmy :: "ustr \<Rightarrow> int option" where
  "strptime_dmy s =
     (case split_on 47 s of
        [d, m, y] \<Rightarrow>
          if day_field d \<and> m \<noteq> [] \<and> length m \<le> 2 \<and> list_all is_digit m
             \<and> length y = 4 \<and> list_all is_digit y
          then
            (let dd = digits_value (filter is_digit d);
                 mm = digits_value m;
                 yy = digits_value y;
                 ns = days_from_civil yy mm dd * ns_per_day
             in if 1 \<le> mm \<and> mm \<le> 12 \<and> 1 \<le> dd \<and> dd \<le> days_in_month yy mm
                   \<and> - (2 ^ 63) < ns \<and> ns < 2 ^ 63
                then Some ns else None)
          else None
      | _ \<Rightarrow> None)"

section \<open>Sheets of the workbook\<close>

text \<open>
  A cell is modelled by what the metric code reads from it: the text that
  \<open>astype(str)\<close> gives (for a missing value the text \<open>nan\<close>) and, through the
  \<open>.dt\<close> accessor of a datetime column, a timestamp in nanoseconds since 1970-01-01
  or nothing for \<open>NaT\<close>. A sheet is a frame with distinct column labels; \<open>datetime64\<close>
  tells which columns have a datetime dtype
  (\<open>pd.api.types.is_datetime64_any_dtype\<close>), and a row gives a cell for a label.
  \<open>self.dfs\<close> is a dict from sheet names to frames, iterated in insertion order: a
  list of pairs.
\<close>

record cell =
  astype_str :: ustr
  dt :: "int option"

record sheet =
  columns :: "ustr list"
  datetime64 :: "ustr \<Rightarrow> bool"
  rows :: "(ustr \<Rightarrow> cell) list"

text \<open>\<open>datetime.date()\<close> and \<open>Series.dt.date\<close>: the day a timestamp falls on.\<close>

definition date_of :: "int \<Rightarrow> int" where
  "date_of t = t div ns_per_day"

text \<open>\<open>DataFrame.empty\<close>: no row or no column.\<close>

definition df_empty :: "sheet \<Rightarrow> bool" where
  "df_empty df \<longleftrightarrow> rows df = [] \<or> columns df = []"

text \<open>\<open>next((col for col in df.columns if 'EQUIPE' in col.upper()), None)\<close>\<close>

definition equipe_col_of :: "ustr list \<Rightarrow> ustr option" where
  "equipe_col_of df_columns =
     find (\<lambda>col. str_contains (py_upper col) (ascii ''EQUIPE'')) df_columns"

text \<open>
  The team filter of \<open>get_daily_metrics\<close>: \<open>if team:\<close> holds for a team that is neither
  \<open>None\<close> nor the empty text, \<open>if equipe_col:\<close> for a column that was found and whose
  name is not empty. Without such a column the frame is not filtered.
\<close>

definition filter_team :: "ustr option \<Rightarrow> sheet \<Rightarrow> (ustr \<Rightarrow> cell) list" where
  "filter_team qteam df =
     (case qteam of
        None \<Rightarrow> rows df
      | Some t \<Rightarrow>
          if t = [] then rows df
          else (case equipe_col_of (columns df) of
                  None \<Rightarrow> rows df
                | Some equipe_col \<Rightarrow>
                    if equipe_col = [] then rows df
                    else filter (\<lambda>r. py_upper (astype_str (r equipe_col)) = py_upper t)
                           (rows df)))"

definition date_columns :: "ustr list" where
  "date_columns = [ascii ''DATA'', ascii ''RESOLUCAO'', ascii ''Data'']"

text \<open>
  One row of \<open>date_mask\<close>: some date column is a datetime column of the frame and the
  row's timestamp there falls on the day asked for.
\<close>

definition on_date :: "int \<Rightarrow> cell \<Rightarrow> bool" where
  "on_date qdate c = (case dt c of None \<Rightarrow> False | Some t \<Rightarrow> date_of t = date_of qdate)"

definition date_mask :: "ustr list \<Rightarrow> sheet \<Rightarrow> int \<Rightarrow> (ustr \<Rightarrow> cell) \<Rightarrow> bool" where
  "date_mask cols df qdate r =
     list_ex (\<lambda>col. col \<in> set (columns df) \<and> datetime64 df col \<and> on_date qdate (r col)) cols"

section \<open>Daily metrics (\<open>DataService.get_daily_metrics\<close>)\<close>

text \<open>
  The keys of the \<open>metrics\<close> dict. The counters are sums of boolean masks, so they are
  natural numbers; \<open>metrics[k] += n\<close> is \<open>add_to\<close>.
\<close>

datatype metric =
  Resolvidos | Pendente_Ativo | Pendente_Receptivo | Prioridade | Prioridade_Total
  | Soma_Prioridades | Analise | Analise_Dia | Receptivo | Quitado_Cliente | Quitado
  | Aprovados

type_synonym metrics = "metric \<Rightarrow> nat"

definition add_to :: "metrics \<Rightarrow> metric \<Rightarrow> nat \<Rightarrow> metrics" where
  "add_to m k n = m(k := m k + n)"

definition mask_sum :: "('a \<Rightarrow> bool) \<Rightarrow> 'a list \<Rightarrow> nat" where
  "mask_sum pred xs = length (filter pred xs)"

text \<open>
  The keyword patterns. 0xCD is the accented I of CONCLUIDO as the source writes it,
  0xC1 the accented A of ANALISE.
\<close>

definition RESOLVIDO_PATTERNS :: "ustr list" where
  "RESOLVIDO_PATTERNS =
     [ascii ''RESOLVID'', ascii ''FINALIZADO'', ascii ''CONCLU'' @ [0xCD] @ ascii ''DO'']"

definition ANALISE_PATTERNS :: "ustr list" where
  "ANALISE_PATTERNS = [ascii ''ANALIS'', ascii ''AN'' @ [0xC1] @ ascii ''LISE'']"

definition ATIVO_RECEPTIVO :: ustr where
  "ATIVO_RECEPTIVO = ascii ''ATIVO/RECEPTIVO''"

text \<open>
  The masks over one row, for the status text \<open>status\<close> of the row and its
  channel text \<open>channel\<close>, each tested on its own.
\<close>

definition status_hit :: "metric \<Rightarrow> ustr \<Rightarrow> bool" where
  "status_hit k status =
     (case k of
        Resolvidos \<Rightarrow> contains_any status RESOLVIDO_PATTERNS
      | Analise \<Rightarrow> contains_any status ANALISE_PATTERNS
      | Quitado \<Rightarrow> contains_any status [ascii ''QUITAD'']
      | Aprovados \<Rightarrow> contains_any status [ascii ''APROVAD'']
      | _ \<Rightarrow> False)"

definition channel_hit :: "metric \<Rightarrow> ustr \<Rightarrow> ustr \<Rightarrow> bool" where
  "channel_hit k status channel =
     (case k of
        Pendente_Ativo \<Rightarrow>
          contains_any status [ascii ''PENDENT'']
          \<and> contains_any channel [ascii ''ATIVO'']
      | Pendente_Receptivo \<Rightarrow>
          contains_any status [ascii ''PENDENT'']
          \<and> contains_any channel [ascii ''RECEPTIVO'']
      | Receptivo \<Rightarrow> contains_any channel [ascii ''RECEPTIVO'']
      | _ \<Rightarrow> False)"

text \<open>
  The body of the loop over the sheets: an empty frame, a frame without a status
  column and a frame without a row on the date are skipped (\<open>continue\<close>); otherwise
  every counter is raised by the sum of its mask over the rows of the date.
\<close>

definition sheet_metrics :: "int \<Rightarrow> ustr option \<Rightarrow> sheet \<Rightarrow> metrics \<Rightarrow> metrics" where
  "sheet_metrics qdate qteam df m =
     (if df_empty df then m
      else
        (let df_temp = filter_team qteam df in
         case get_situacao_column (columns df) of
           None \<Rightarrow> m
         | Some situacao_col \<Rightarrow>
             (let df_date = filter (date_mask date_columns df qdate) df_temp in
              if df_date = [] then m
              else
                (let situacao = (\<lambda>r. py_upper (astype_str (r situacao_col)));
                     m1 = add_to m Resolvidos
                            (mask_sum (\<lambda>r. status_hit Resolvidos (situacao r)) df_date);
                     m2 = add_to m1 Analise
                            (mask_sum (\<lambda>r. status_hit Analise (situacao r)) df_date);
                     m3 = add_to m2 Quitado
                            (mask_sum (\<lambda>r. status_hit Quitado (situacao r)) df_date);
                     m4 = add_to m3 Aprovados
                            (mask_sum (\<lambda>r. status_hit Aprovados (situacao r)) df_date)
                 in if ATIVO_RECEPTIVO \<in> set (columns df) then
                      (let ativo_receptivo = (\<lambda>r. py_upper (astype_str (r ATIVO_RECEPTIVO)));
                           m5 = add_to m4 Pendente_Ativo
                                  (mask_sum (\<lambda>r. channel_hit Pendente_Ativo (situacao r)
                                                    (ativo_receptivo r)) df_date);
                           m6 = add_to m5 Pendente_Receptivo
                                  (mask_sum (\<lambda>r. channel_hit Pendente_Receptivo (situacao r)
                                                    (ativo_receptivo r)) df_date)
                       in add_to m6 Receptivo
                            (mask_sum (\<lambda>r. channel_hit Receptivo (situacao r)
                                              (ativo_receptivo r)) df_date))
                    else m4))))"

text \<open>
  The pydantic class \<open>DailyMetrics\<close>. \<open>soma_prioridades\<close> is a float in the source; it
  is set to 0 and never changed, like the other priority counters.
\<close>

record DailyMetrics =
  date :: int
  team :: "ustr option"
  resolvidos :: nat
  pendente_ativo :: nat
  pendente_receptivo :: nat
  prioridade :: nat
  prioridade_total :: nat
  soma_prioridades :: nat
  analise :: nat
  analise_dia :: nat
  receptivo :: nat
  quitado_cliente :: nat
  quitado :: nat
  aprovados :: nat

definition daily_counts :: "(ustr \<times> sheet) list \<Rightarrow> int \<Rightarrow> ustr option \<Rightarrow> metrics" where
  "daily_counts dfs qdate qteam =
     fold (\<lambda>(sheet_name, df). sheet_metrics qdate qteam df) dfs (\<lambda>k. 0)"

definition get_daily_metrics ::
  "(ustr \<times> sheet) list \<Rightarrow> int \<Rightarrow> ustr option \<Rightarrow> DailyMetrics" where
  "get_daily_metrics dfs qdate qteam =
     (let m = daily_counts dfs qdate qteam in
      \<lparr> date = qdate, team = qteam,
        resolvidos = m Resolvidos, pendente_ativo = m Pendente_Ativo,
        pendente_receptivo = m Pendente_Receptivo, prioridade = m Prioridade,
        prioridade_total = m Prioridade_Total, soma_prioridades = m Soma_Prioridades,
        analise = m Analise, analise_dia = m Analise_Dia, receptivo = m Receptivo,
        quitado_cliente = m Quitado_Cliente, quitado = m Quitado,
        aprovados = m Aprovados \<rparr>)"

text \<open>Reading a counter of the result by its name.\<close>

definition metric_value :: "DailyMetrics \<Rightarrow> metric \<Rightarrow> nat" where
  "metric_value dm k =
     (case k of
        Resolvidos \<Rightarrow> resolvidos dm | Pendente_Ativo \<Rightarrow> pendente_ativo dm
      | Pendente_Receptivo \<Rightarrow> pendente_receptivo dm | Prioridade \<Rightarrow> prioridade dm
      | Prioridade_Total \<Rightarrow> prioridade_total dm | Soma_Prioridades \<Rightarrow> soma_prioridades dm
      | Analise \<Rightarrow> analise dm | Analise_Dia \<Rightarrow> analise_dia dm | Receptivo \<Rightarrow> receptivo dm
      | Quitado_Cliente \<Rightarrow> quitado_cliente dm | Quitado \<Rightarrow> quitado dm
      | Aprovados \<Rightarrow> aprovados dm)"

section \<open>Chunked metrics (\<open>calculate_daily_metrics\<close> of the dashboard script)\<close>

text \<open>
  The script walks every sheet in slices of \<open>chunk_size\<close> rows, \<open>df.iloc[a:b]\<close> for
  \<open>a\<close> in \<open>range(0, len(df), chunk_size)\<close>. The source fixes \<open>chunk_size = 1000\<close>;
  here it is a parameter.
\<close>

function chunks :: "nat \<Rightarrow> 'a list \<Rightarrow> 'a list list" where
  "chunks n xs = (if n = 0 \<or> xs = [] then [] else take n xs # chunks n (drop n xs))"
  by pat_completeness auto
termination
  by (relation "measure (\<lambda>(n, xs). length xs)") auto

declare chunks.simps [simp del]

definition date_columns_dashboard :: "ustr list" where
  "date_columns_dashboard =
     [ascii ''DATA'', ascii ''RESOLUCAO'', ascii ''Data'',
      ascii ''DATA CONCLUS'' @ [0xC3] @ ascii ''O'', ascii ''DATA IN'' @ [0xCD] @ ascii ''CIO'']"

text \<open>
  The body of the loop over the chunks. The team filter and the date columns also ask
  that the chunk is not empty. The status text is upper-cased and stripped. The last
  step, \<open>Analise_Dia\<close>, reads the column \<open>DATA\<close> through \<open>.dt\<close>: when the frame has no
  such column or the column is no datetime column this raises inside the \<open>try\<close>, and
  the handler goes on with the next chunk, the counters raised so far being kept.
\<close>

definition chunk_metrics ::
  "int \<Rightarrow> ustr option \<Rightarrow> sheet \<Rightarrow> (ustr \<Rightarrow> cell) list \<Rightarrow> metrics \<Rightarrow> metrics" where
  "chunk_metrics qdate selected_team df chunk m =
     (let df_chunk =
            (if chunk = [] then chunk else filter_team selected_team (df\<lparr>rows := chunk\<rparr>));
          df_date =
            (if df_chunk = [] then []
             else filter (date_mask date_columns_dashboard df qdate) df_chunk)
      in if df_date = [] \<or> columns df = [] then m
         else
           (case get_situacao_column (columns df) of
              None \<Rightarrow> m
            | Some situacao_col \<Rightarrow>
                (let situacao = (\<lambda>r. py_strip (py_upper (astype_str (r situacao_col))));
                     m1 = add_to m Resolvidos
                            (mask_sum (\<lambda>r. status_hit Resolvidos (situacao r)) df_date);
                     m2 = add_to m1 Analise
                            (mask_sum (\<lambda>r. status_hit Analise (situacao r)) df_date);
                     m3 = add_to m2 Quitado
                            (mask_sum (\<lambda>r. status_hit Quitado (situacao r)) df_date);
                     m4 = add_to m3 Aprovados
                            (mask_sum (\<lambda>r. status_hit Aprovados (situacao r)) df_date);
                     m7 =
                       (if ATIVO_RECEPTIVO \<in> set (columns df) then
                          (let ativo_receptivo =
                                 (\<lambda>r. py_upper (astype_str (r ATIVO_RECEPTIVO)));
                               m5 = add_to m4 Pendente_Ativo
                                      (mask_sum (\<lambda>r. channel_hit Pendente_Ativo (situacao r)
                                                        (ativo_receptivo r)) df_date);
                               m6 = add_to m5 Pendente_Receptivo
                                      (mask_sum (\<lambda>r. channel_hit Pendente_Receptivo (situacao r)
                                                        (ativo_receptivo r)) df_date)
                           in add_to m6 Receptivo
                                (mask_sum (\<lambda>r. channel_hit Receptivo (situacao r)
                                                  (ativo_receptivo r)) df_date))
                        else m4)
                 in if list_ex (\<lambda>r. status_hit Analise (situacao r)) df_date then
                      (if ascii ''DATA'' \<in> set (columns df) \<and> datetime64 df (ascii ''DATA'')
                       then add_to m7 Analise_Dia
                              (mask_sum (\<lambda>r. status_hit Analise (situacao r)
                                               \<and> on_date qdate (r (ascii ''DATA''))) df_date)
                       else m7)
                    else m7)))"

text \<open>
  The whole function. With \<open>chunk_size = 0\<close> the call of \<open>range\<close> raises at the first
  frame that is not empty; the outer handler returns the dict as it is then, and no
  frame has contributed to it.
\<close>

definition calculate_daily_metrics ::
  "nat \<Rightarrow> (ustr \<times> sheet) list \<Rightarrow> int \<Rightarrow> ustr option \<Rightarrow> metrics" where
  "calculate_daily_metrics chunk_size dfs qdate selected_team =
     (if chunk_size = 0 then (\<lambda>k. 0)
      else fold (\<lambda>(sheet_name, df) m.
                   if df_empty df then m
                   else fold (chunk_metrics qdate selected_team df)
                          (chunks chunk_size (rows df)) m)
             dfs (\<lambda>k. 0))"

section \<open>Date range (\<open>DataService.get_date_range\<close>)\<close>








section \<open>Notions for stating the properties\<close>

text \<open>
  The team filter as a mask over one row: true where \<open>get_daily_metrics\<close> does not
  filter at all.
\<close>

definition team_mask :: "ustr option \<Rightarrow> ustr list \<Rightarrow> (ustr \<Rightarrow> cell) \<Rightarrow> bool" where
  "team_mask qteam df_columns r =
     (case qteam of
        None \<Rightarrow> True
      | Some t \<Rightarrow>
          if t = [] then True
          else (case equipe_col_of df_columns of
                  None \<Rightarrow> True
                | Some equipe_col \<Rightarrow>
                    if equipe_col = [] then True
                    else py_upper (astype_str (r equipe_col)) = py_upper t))"

text \<open>
  Whether one row of a frame with status column \<open>situacao_col\<close> raises the counter
  \<open>k\<close> in \<open>get_daily_metrics\<close>, and the number of rows of a sheet that are selected for
  a date and a team and raise it.
\<close>

definition row_hit :: "sheet \<Rightarrow> ustr \<Rightarrow> metric \<Rightarrow> (ustr \<Rightarrow> cell) \<Rightarrow> bool" where
  "row_hit df situacao_col k r =
     (status_hit k (py_upper (astype_str (r situacao_col)))
      \<or> (ATIVO_RECEPTIVO \<in> set (columns df)
          \<and> channel_hit k (py_upper (astype_str (r situacao_col)))
                (py_upper (astype_str (r ATIVO_RECEPTIVO)))))"

definition sheet_count :: "int \<Rightarrow> ustr option \<Rightarrow> sheet \<Rightarrow> metric \<Rightarrow> nat" where
  "sheet_count qdate qteam df k =
     (case get_situacao_column (columns df) of
        None \<Rightarrow> 0
      | Some situacao_col \<Rightarrow>
          mask_sum (\<lambda>r. team_mask qteam (columns df) r \<and> date_mask date_columns df qdate r
                        \<and> row_hit df situacao_col k r) (rows df))"

text \<open>The same for a chunk of the dashboard script, which also counts \<open>Analise_Dia\<close>.\<close>

definition row_hit_dashboard ::
  "sheet \<Rightarrow> ustr \<Rightarrow> int \<Rightarrow> metric \<Rightarrow> (ustr \<Rightarrow> cell) \<Rightarrow> bool" where
  "row_hit_dashboard df situacao_col qdate k r =
     (status_hit k (py_strip (py_upper (astype_str (r situacao_col))))
      \<or> (ATIVO_RECEPTIVO \<in> set (columns df)
          \<and> channel_hit k (py_strip (py_upper (astype_str (r situacao_col))))
                (py_upper (astype_str (r ATIVO_RECEPTIVO))))
      \<or> (k = Analise_Dia \<and> ascii ''DATA'' \<in> set (columns df) \<and> datetime64 df (ascii ''DATA'')
          \<and> status_hit Analise (py_strip (py_upper (astype_str (r situacao_col))))
          \<and> on_date qdate (r (ascii ''DATA''))))"

definition chunk_count ::
  "int \<Rightarrow> ustr option \<Rightarrow> sheet \<Rightarrow> metric \<Rightarrow> (ustr \<Rightarrow> cell) list \<Rightarrow> nat" where
  "chunk_count qdate qteam df k chunk =
     (case get_situacao_column (columns df) of
        None \<Rightarrow> 0
      | Some situacao_col \<Rightarrow>
          mask_sum (\<lambda>r. team_mask qteam (columns df) r
                        \<and> date_mask date_columns_dashboard df qdate r
                        \<and> row_hit_dashboard df situacao_col qdate k r) chunk)"




subsection \<open>Example sheets\<close>

text \<open>
  \<open>example_day\<close> is 2025-01-10 00:00. A row of the examples has a date (or \<open>NaT\<close>) in
  DATA, a team in EQUIPE and a status in STATUS; any other cell is missing.
\<close>

definition example_day :: int where
  "example_day = 1736467200000000000"

definition example_row :: "int option \<Rightarrow> ustr \<Rightarrow> ustr \<Rightarrow> ustr \<Rightarrow> cell" where
  "example_row day equipe_text status_text col =
     (if col = ascii ''DATA'' then \<lparr> astype_str = ascii ''date'', dt = day \<rparr>
      else if col = ascii ''EQUIPE'' then \<lparr> astype_str = equipe_text, dt = None \<rparr>
      else if col = ascii ''STATUS'' then \<lparr> astype_str = status_text, dt = None \<rparr>
      else \<lparr> astype_str = ascii ''nan'', dt = None \<rparr>)"

definition sheet_with_teams :: sheet where
  "sheet_with_teams =
     \<lparr> columns = [ascii ''DATA'', ascii ''EQUIPE'', ascii ''STATUS''],
       datetime64 = (\<lambda>col. col = ascii ''DATA''),
       rows = [example_row (Some example_day) (ascii ''Equipe A'') (ascii ''Resolvido''),
               example_row (Some example_day) (ascii ''Equipe B'')
                 (ascii ''Resolvido e quitado'')] \<rparr>"

definition sheet_without_equipe :: sheet where
  "sheet_without_equipe =
     \<lparr> columns = [ascii ''DATA'', ascii ''STATUS''],
       datetime64 = (\<lambda>col. col = ascii ''DATA''),
       rows = [example_row (Some example_day) (ascii ''nan'') (ascii ''Resolvido''),
               example_row (Some (example_day + 3 * ns_per_day)) (ascii ''nan'')
                 (ascii ''Pendente'')] \<rparr>"

definition sheet_undated :: sheet where
  "sheet_undated =
     \<lparr> columns = [ascii ''DATA'', ascii ''STATUS''],
       datetime64 = (\<lambda>col. col = ascii ''DATA''),
       rows = [example_row None (ascii ''nan'') (ascii ''Pendente'')] \<rparr>"

section \<open>Properties of name normalisation\<close>

lemma ascii_simps [simp]:
  "ascii [] = []"
  "ascii (c # cs) = of_char c # ascii cs"
  by (simp_all add: ascii_def)

lemma py_upper_simps [simp]:
  "py_upper [] = []"
  "py_upper (c # cs) = upper_cp c @ py_upper cs"
  by (simp_all add: py_upper_def)

lemma nfkd_simps [simp]:
  "nfkd [] = []"
  "nfkd (c # cs) = nfkd_cp c @ nfkd cs"
  by (simp_all add: nfkd_def)

lemma nfkd_cp_low: "c < 0xA0 \<Longrightarrow> nfkd_cp c = [c]"
  by (simp add: nfkd_cp_def nfkd_table_def)

lemma nfkd_cp_ordinal: "nfkd_cp 0xAA = [0x61]"
  by (simp add: nfkd_cp_def nfkd_table_def)

text \<open>
  C7. The source's \<open>normalize_name\<close> is not idempotent. For the text M, feminine
  ordinal indicator (0xAA), space, JOSE, the usual abbreviation of MARIA JOSE, the first
  pass returns \<open>Ma JOSE\<close>: upper-casing runs before the decomposition, and the
  decomposition turns the ordinal indicator into a small \<open>a\<close>. The second pass
  returns \<open>MA JOSE\<close>.
\<close>

theorem normalize_name_not_idempotent:
  "normalize_name (Some (ascii ''M'' @ [0xAA] @ ascii '' JOSE'')) = Some (ascii ''Ma JOSE'')
   \<and> normalize_name (normalize_name (Some (ascii ''M'' @ [0xAA] @ ascii '' JOSE'')))
       = Some (ascii ''MA JOSE'')
   \<and> normalize_name (normalize_name (Some (ascii ''M'' @ [0xAA] @ ascii '' JOSE'')))
       \<noteq> normalize_name (Some (ascii ''M'' @ [0xAA] @ ascii '' JOSE''))"
  by (simp add: normalize_name_def normalize_text_def py_strip_def isspace_def
      upper_cp_def nfkd_cp_low nfkd_cp_ordinal encode_ascii_ignore_def)


section \<open>Properties of text search\<close>

lemma startswith_iff: "startswith s p \<longleftrightarrow> (\<exists>b. s = p @ b)"
  by (induction s p rule: startswith.induct) auto

lemma str_contains_iff: "str_contains s p \<longleftrightarrow> (\<exists>a b. s = a @ p @ b)"
proof (induction s)
  case Nil
  then show ?case by auto
next
  case (Cons c cs)
  show ?case
  proof
    assume "str_contains (c # cs) p"
    then consider "startswith (c # cs) p" | "str_contains cs p" by auto
    then show "\<exists>a b. c # cs = a @ p @ b"
    proof cases
      case 1
      then obtain b where "c # cs = p @ b" by (auto simp: startswith_iff)
      then have "c # cs = [] @ p @ b" by simp
      then show ?thesis by blast
    next
      case 2
      with Cons obtain a b where "cs = a @ p @ b" by blast
      then have "c # cs = (c # a) @ p @ b" by simp
      then show ?thesis by blast
    qed
  next
    assume "\<exists>a b. c # cs = a @ p @ b"
    then obtain a b where ab: "c # cs = a @ p @ b" by blast
    show "str_contains (c # cs) p"
    proof (cases a)
      case Nil
      with ab have "startswith (c # cs) p" by (auto simp: startswith_iff)
      then show ?thesis by simp
    next
      case (Cons x a')
      with ab have "cs = a' @ p @ b" by simp
      with Cons.IH have "str_contains cs p" by blast
      then show ?thesis by simp
    qed
  qed
qed

lemma py_strip_keeps_middle:
  assumes "p \<noteq> []" and "\<not> isspace (hd p)" and "\<not> isspace (last p)"
  shows "py_strip (a @ p @ b) =
           dropWhile isspace a @ p @ rev (dropWhile isspace (rev b))"
proof -
  from assms(1) obtain x p' where p: "p = x # p'" by (cases p) auto
  with assms(2) have x: "\<not> isspace x" by simp
  have front: "dropWhile isspace (a @ p @ b) = dropWhile isspace a @ p @ b"
    using x by (simp add: p dropWhile_append3)
  from assms(1) obtain q y where q: "p = q @ [y]" by (cases p rule: rev_cases) auto
  with assms(3) have y: "\<not> isspace y" by simp
  have "rev (dropWhile isspace a @ p @ b) = rev b @ y # (rev q @ rev (dropWhile isspace a))"
    by (simp add: q)
  then have tail_eq: "dropWhile isspace (rev (dropWhile isspace a @ p @ b)) =
             dropWhile isspace (rev b) @ y # (rev q @ rev (dropWhile isspace a))"
    using y by (simp add: dropWhile_append3)
  have "py_strip (a @ p @ b) = rev (dropWhile isspace (rev (dropWhile isspace a @ p @ b)))"
    by (simp only: py_strip_def front)
  also have "\<dots> = rev (dropWhile isspace (rev b) @ y # (rev q @ rev (dropWhile isspace a)))"
    by (simp only: tail_eq)
  also have "\<dots> = dropWhile isspace a @ p @ rev (dropWhile isspace (rev b))"
    by (simp add: q)
  finally show ?thesis .
qed

lemma py_strip_sublist: "\<exists>a b. s = a @ py_strip s @ b"
proof -
  have "s = takeWhile isspace s @ dropWhile isspace s" by simp
  moreover have "dropWhile isspace s =
        rev (dropWhile isspace (rev (dropWhile isspace s)))
        @ rev (takeWhile isspace (rev (dropWhile isspace s)))"
    by (metis rev_append rev_rev_ident takeWhile_dropWhile_id)
  ultimately have "s = takeWhile isspace s @ py_strip s
                     @ rev (takeWhile isspace (rev (dropWhile isspace s)))"
    by (simp add: py_strip_def)
  then show ?thesis by blast
qed

lemma str_contains_strip:
  assumes "p \<noteq> []" and "\<not> isspace (hd p)" and "\<not> isspace (last p)"
  shows "str_contains (py_strip s) p = str_contains s p"
proof
  assume "str_contains (py_strip s) p"
  then obtain a b where "py_strip s = a @ p @ b" by (auto simp: str_contains_iff)
  moreover obtain a' b' where "s = a' @ py_strip s @ b'" using py_strip_sublist by blast
  ultimately have "s = (a' @ a) @ p @ (b @ b')" by simp
  then show "str_contains s p" unfolding str_contains_iff by blast
next
  assume "str_contains s p"
  then obtain a b where "s = a @ p @ b" by (auto simp: str_contains_iff)
  then have "py_strip s = dropWhile isspace a @ p @ rev (dropWhile isspace (rev b))"
    using py_strip_keeps_middle [OF assms] by simp
  then show "str_contains (py_strip s) p" unfolding str_contains_iff by blast
qed

section \<open>Properties of team classification\<close>

lemma map_to_team_loop_first:
  "map_to_team_loop roster r = spec_first_team roster (ascii ''OUTROS'') r"
  by (induction roster) (auto simp: spec_first_team_def)

text \<open>
  C2, as the code has it. \<open>_map_to_team\<close> returns the first team of \<open>TEAM_MAPPING\<close>,
  in its order, whose member list holds the name, and \<open>OUTROS\<close> when none does; it
  has no label for a missing responsible. \<open>get_team\<close> returns \<open>Sem Responsavel\<close> for a
  missing value; for a text it returns the first of its two rosters (Julio, then
  Leandro and Adriano) that holds the normalised name, and \<open>Outros\<close> when none does.
\<close>

theorem team_classifier_first_match:
  "map_to_team r = spec_first_team TEAM_MAPPING (ascii ''OUTROS'') r
   \<and> get_team None = SEM_RESPONSAVEL
   \<and> get_team (Some s) =
       spec_first_team
         [(EQUIPE_JULIO, equipe_julio), (EQUIPE_LEANDRO_ADRIANO, equipe_leandro_adriano)]
         OUTROS (normalize_text s)"
  by (simp add: map_to_team_def map_to_team_loop_first get_team_def spec_first_team_def Let_def)

text \<open>
  C2 as stated fails for \<open>_map_to_team\<close>: the sentinel that \<open>process_dataframe\<close> writes
  for a missing responsible is classified as \<open>OUTROS\<close>, not as a team of its own.
\<close>

theorem map_to_team_sentinel_counterexample:
  "map_to_team NAO_INFORMADO = ascii ''OUTROS'' \<and> map_to_team NAO_INFORMADO \<noteq> SEM_RESPONSAVEL"
  by (simp add: map_to_team_def TEAM_MAPPING_def NAO_INFORMADO_def SEM_RESPONSAVEL_def)

section \<open>Properties of column resolution\<close>

lemma identify_columns_loop_apply:
  "identify_columns_loop cols mapping col =
     (if col \<in> set cols \<and> first_target EXPECTED_COLUMNS (py_strip (py_upper col)) \<noteq> None
      then first_target EXPECTED_COLUMNS (py_strip (py_upper col))
      else mapping col)"
  by (induction cols arbitrary: mapping) (auto simp: Let_def split: option.splits)

lemma identify_columns_apply:
  "identify_columns cols col =
     (if col \<in> set cols then first_target EXPECTED_COLUMNS (py_strip (py_upper col)) else None)"
  by (auto simp: identify_columns_def identify_columns_loop_apply)

lemma first_target_DATA:
  "first_target EXPECTED_COLUMNS (ascii ''DATA'') = Some (ascii ''resolucao'')"
  by (simp add: EXPECTED_COLUMNS_def)

lemma first_target_RESOLUCAO_accented:
  "first_target EXPECTED_COLUMNS (ascii ''RESOLU'' @ [0xC7, 0xC3] @ ascii ''O'')
     = Some (ascii ''resolucao'')"
  by (simp add: EXPECTED_COLUMNS_def)

lemma first_target_SITUACAO:
  "first_target EXPECTED_COLUMNS (ascii ''SITUACAO'') = Some (ascii ''situacao'')"
  by (simp add: EXPECTED_COLUMNS_def)

text \<open>
  C4. The mapping of \<open>identify_columns\<close> does not keep the invariant that at most one
  raw column is bound to a canonical field. For the columns DATA and RESOLUCAO (written
  with cedilla and tilde, 0xC7 and 0xC3), which the CSV files of the repository have,
  both columns are bound to \<open>resolucao\<close>: the candidate DATA occurs in the first name and
  the candidate RESOLU in the second, and nothing checks that the field is bound
  already. \<open>process_dataframe\<close>, which reads \<open>df['resolucao']\<close> as one column, then
  raises on this frame, whatever its rows.
\<close>

theorem identify_columns_binds_two_columns:
  "identify_columns [ascii ''DATA'', ascii ''RESOLU'' @ [0xC7, 0xC3] @ ascii ''O'']
     (ascii ''DATA'') = Some (ascii ''resolucao'')
   \<and> identify_columns [ascii ''DATA'', ascii ''RESOLU'' @ [0xC7, 0xC3] @ ascii ''O'']
     (ascii ''RESOLU'' @ [0xC7, 0xC3] @ ascii ''O'') = Some (ascii ''resolucao'')
   \<and> ascii ''DATA'' \<noteq> ascii ''RESOLU'' @ [0xC7, 0xC3] @ ascii ''O''
   \<and> process_dataframe to_datetime
        \<lparr> raw_columns = [ascii ''DATA'', ascii ''RESOLU'' @ [0xC7, 0xC3] @ ascii ''O''],
          raw_rows = rs \<rparr>
      = Inl (DuplicateLabel (ascii ''resolucao''))"
  by (simp add: process_dataframe_def labelled_def renamed_def identify_columns_apply
      py_strip_def isspace_def upper_cp_def
      first_target_DATA [simplified] first_target_RESOLUCAO_accented [simplified])

section \<open>Properties of record normalisation\<close>

lemma map_row_index_normalize:
  "map row_index (filter (\<lambda>row. resolucao row \<noteq> None) (map (normalize_row p rc a b) irs)) =
   map fst (filter (\<lambda>(i, r). p (fill_cell (r rc)) \<noteq> None) irs)"
  by (induction irs) (auto simp: normalize_row_def)

lemma normalize_row_in_output:
  "row \<in> set (filter (\<lambda>row. resolucao row \<noteq> None) (map (normalize_row p rc a b) irs)) \<Longrightarrow>
   resolucao row \<noteq> None \<and>
   (\<exists>r. (row_index row, r) \<in> set irs \<and> resolucao row = p (fill_cell (r rc)))"
  by (auto simp: normalize_row_def)

text \<open>
  C1, as the code has it. When exactly one raw column is bound to \<open>resolucao\<close> and at
  most one to each of \<open>responsavel\<close> and \<open>situacao\<close>, \<open>process_dataframe\<close> returns, and
  the frame it returns holds exactly the rows whose date cell parses, in their order and
  each with its parsed date: a row whose date cell does not parse gets a null date and
  is then removed by \<open>dropna\<close>. This holds for any parser of one date text.
\<close>

theorem process_dataframe_drops_unparsed_dates:
  assumes "labelled (identify_columns (raw_columns df)) (raw_columns df) (ascii ''resolucao'')
             = [res_col]"
    and "length (labelled (identify_columns (raw_columns df)) (raw_columns df)
                   (ascii ''responsavel'')) \<le> 1"
    and "length (labelled (identify_columns (raw_columns df)) (raw_columns df)
                   (ascii ''situacao'')) \<le> 1"
  shows "\<exists>out. process_dataframe to_datetime df = Inr out
           \<and> map row_index out =
               map fst (filter (\<lambda>(i, r). to_datetime (fill_cell (r res_col)) \<noteq> None)
                          (enumerate 0 (raw_rows df)))
           \<and> (\<forall>row \<in> set out. resolucao row \<noteq> None
                  \<and> (\<exists>r. (row_index row, r) \<in> set (enumerate 0 (raw_rows df))
                         \<and> resolucao row = to_datetime (fill_cell (r res_col))))"
proof -
  let ?out = "filter (\<lambda>row. resolucao row \<noteq> None)
                (map (normalize_row to_datetime res_col
                       (case labelled (identify_columns (raw_columns df)) (raw_columns df)
                               (ascii ''responsavel'') of [] \<Rightarrow> None | c # _ \<Rightarrow> Some c)
                       (case labelled (identify_columns (raw_columns df)) (raw_columns df)
                               (ascii ''situacao'') of [] \<Rightarrow> None | c # _ \<Rightarrow> Some c))
                  (enumerate 0 (raw_rows df)))"
  from assms have "process_dataframe to_datetime df = Inr ?out"
    unfolding process_dataframe_def Let_def by (simp del: ascii_simps)
  moreover have "map row_index ?out =
      map fst (filter (\<lambda>(i, r). to_datetime (fill_cell (r res_col)) \<noteq> None)
                 (enumerate 0 (raw_rows df)))"
    by (rule map_row_index_normalize)
  moreover have "\<forall>row \<in> set ?out. resolucao row \<noteq> None
                  \<and> (\<exists>r. (row_index row, r) \<in> set (enumerate 0 (raw_rows df))
                         \<and> resolucao row = to_datetime (fill_cell (r res_col)))"
    using normalize_row_in_output by blast
  ultimately show ?thesis by blast
qed

lemma strptime_good: "strptime_dmy (ascii ''10/01/2025'') = Some 1736467200000000000"
  by (simp add: strptime_dmy_def day_field_def is_digit_def digits_value_def
      days_in_month_def is_leap_def days_from_civil_def ns_per_day_def)

lemma strptime_bad: "strptime_dmy (ascii ''31/02/2025'') = None"
  by (simp add: strptime_dmy_def day_field_def is_digit_def digits_value_def
      days_in_month_def is_leap_def days_from_civil_def ns_per_day_def)

lemma strptime_sentinel: "strptime_dmy NAO_INFORMADO = None"
  by (simp add: strptime_dmy_def NAO_INFORMADO_def)

lemma labelled_example:
  "labelled (identify_columns [ascii ''DATA'', ascii ''SITUACAO''])
     [ascii ''DATA'', ascii ''SITUACAO''] (ascii ''resolucao'') = [ascii ''DATA'']"
  "labelled (identify_columns [ascii ''DATA'', ascii ''SITUACAO''])
     [ascii ''DATA'', ascii ''SITUACAO''] (ascii ''responsavel'') = []"
  "labelled (identify_columns [ascii ''DATA'', ascii ''SITUACAO''])
     [ascii ''DATA'', ascii ''SITUACAO''] (ascii ''situacao'') = [ascii ''SITUACAO'']"
  by (simp_all add: labelled_def renamed_def identify_columns_def Let_def py_strip_def
      isspace_def upper_cp_def first_target_DATA [simplified] first_target_SITUACAO [simplified])

theorem process_dataframe_drops_unparsed_dates_witness:
  "\<exists>out. process_dataframe strptime_dmy
             \<lparr> raw_columns = [ascii ''DATA'', ascii ''SITUACAO''],
               raw_rows =
                 [[ascii ''DATA'' \<mapsto> ascii ''31/02/2025'',
                   ascii ''SITUACAO'' \<mapsto> ascii ''PENDENTE''],
                  [ascii ''DATA'' \<mapsto> ascii ''10/01/2025'',
                   ascii ''SITUACAO'' \<mapsto> ascii ''RESOLVIDO'']] \<rparr>
           = Inr out
         \<and> map row_index out = [1]
         \<and> (\<forall>row \<in> set out. resolucao row \<noteq> None)"
proof -
  let ?df = "\<lparr> raw_columns = [ascii ''DATA'', ascii ''SITUACAO''],
               raw_rows =
                 [[ascii ''DATA'' \<mapsto> ascii ''31/02/2025'',
                   ascii ''SITUACAO'' \<mapsto> ascii ''PENDENTE''],
                  [ascii ''DATA'' \<mapsto> ascii ''10/01/2025'',
                   ascii ''SITUACAO'' \<mapsto> ascii ''RESOLVIDO'']] \<rparr>"
  have h1: "labelled (identify_columns (raw_columns ?df)) (raw_columns ?df) (ascii ''resolucao'')
              = [ascii ''DATA'']"
    by (simp add: labelled_example [simplified])
  have h2: "length (labelled (identify_columns (raw_columns ?df)) (raw_columns ?df)
                     (ascii ''responsavel'')) \<le> 1"
    by (simp add: labelled_example [simplified])
  have h3: "length (labelled (identify_columns (raw_columns ?df)) (raw_columns ?df)
                     (ascii ''situacao'')) \<le> 1"
    by (simp add: labelled_example [simplified])
  from process_dataframe_drops_unparsed_dates [OF h1 h2 h3, of strptime_dmy]
  obtain out where o1: "process_dataframe strptime_dmy ?df = Inr out"
    and o2: "map row_index out =
               map fst (filter (\<lambda>(i, r). strptime_dmy (fill_cell (r (ascii ''DATA''))) \<noteq> None)
                          (enumerate 0 (raw_rows ?df)))"
    and o3: "\<forall>row \<in> set out. resolucao row \<noteq> None
                  \<and> (\<exists>r. (row_index row, r) \<in> set (enumerate 0 (raw_rows ?df))
                         \<and> resolucao row = strptime_dmy (fill_cell (r (ascii ''DATA''))))"
    by blast
  from o2 have o2': "map row_index out = [1]"
    by (simp add: fill_cell_def strptime_good [simplified] strptime_bad [simplified]
        enumerate_eq_zip)
  from o3 have o3': "\<forall>row \<in> set out. resolucao row \<noteq> None"
    by simp
  show ?thesis
  proof (intro exI conjI)
    show "process_dataframe strptime_dmy ?df = Inr out" by (rule o1)
    show "map row_index out = [1]" by (rule o2')
    show "\<forall>row \<in> set out. resolucao row \<noteq> None" by (rule o3')
  qed
qed

text \<open>
  C1 as stated fails: of three rows, the one whose date is not a calendar date and the
  one whose date cell is empty are not retained; only the row of index 0 is returned.
\<close>

theorem process_dataframe_drops_counterexample:
  "strptime_dmy (fill_cell (Some (ascii ''31/02/2025''))) = None
   \<and> strptime_dmy (fill_cell None) = None
   \<and> (case process_dataframe strptime_dmy
             \<lparr> raw_columns = [ascii ''DATA'', ascii ''SITUACAO''],
               raw_rows =
                 [[ascii ''DATA'' \<mapsto> ascii ''10/01/2025'',
                   ascii ''SITUACAO'' \<mapsto> ascii ''RESOLVIDO''],
                  [ascii ''DATA'' \<mapsto> ascii ''31/02/2025'',
                   ascii ''SITUACAO'' \<mapsto> ascii ''PENDENTE''],
                  [ascii ''SITUACAO'' \<mapsto> ascii ''QUITADO'']] \<rparr> of
         Inl e \<Rightarrow> False
       | Inr out \<Rightarrow> map row_index out = [0] \<and> length out = 1)"
  by (simp add: process_dataframe_def Let_def labelled_example [simplified] normalize_row_def
      fill_cell_def strptime_good [simplified] strptime_bad [simplified] strptime_sentinel
      enumerate_eq_zip)

section \<open>Properties of the daily metrics\<close>

lemma filter_team_mask: "filter_team qteam df = filter (team_mask qteam (columns df)) (rows df)"
  by (auto simp: filter_team_def team_mask_def [abs_def] split: option.splits)

lemma get_situacao_column_Some_columns:
  "get_situacao_column cs = Some c \<Longrightarrow> cs \<noteq> []"
  by (auto simp: get_situacao_column_def find_Some_iff)

lemma mask_sum_filter: "mask_sum P (filter Q xs) = mask_sum (\<lambda>x. Q x \<and> P x) xs"
  by (simp add: mask_sum_def conj_commute)

lemma mask_sum_Nil [simp]: "mask_sum P [] = 0"
  by (simp add: mask_sum_def)

lemma mask_sum_none: "\<not> list_ex P xs \<Longrightarrow> mask_sum (\<lambda>x. P x \<and> Q x) xs = 0"
  by (induction xs) (auto simp: mask_sum_def)

text \<open>
  One pass of the loop over the sheets adds to every counter the number of rows of the
  sheet that are selected and hit the counter.
\<close>

lemma sheet_metrics_apply:
  "sheet_metrics qdate qteam df m k = m k + sheet_count qdate qteam df k"
proof (cases "get_situacao_column (columns df)")
  case None
  then show ?thesis by (simp add: sheet_metrics_def sheet_count_def Let_def)
next
  case (Some sc)
  then have cols: "columns df \<noteq> []" by (rule get_situacao_column_Some_columns)
  let ?sel = "\<lambda>r. team_mask qteam (columns df) r \<and> date_mask date_columns df qdate r"
  have cnt: "\<And>k. sheet_count qdate qteam df k =
                 mask_sum (row_hit df sc k) (filter ?sel (rows df))"
    by (simp add: sheet_count_def Some mask_sum_filter)
  have sel: "filter (date_mask date_columns df qdate) (filter_team qteam df) =
               filter ?sel (rows df)"
    by (simp add: filter_team_mask conj_commute)
  show ?thesis
  proof (cases "filter ?sel (rows df) = []")
    case True
    then show ?thesis
      by (simp add: sheet_metrics_def Let_def Some sel cnt)
  next
    case False
    then have ne: "rows df \<noteq> []" by auto
    show ?thesis
      using False ne cols
      by (cases k)
        (simp_all add: sheet_metrics_def Let_def Some sel cnt df_empty_def add_to_def
          row_hit_def [abs_def] status_hit_def channel_hit_def mask_sum_def)
  qed
qed

lemma fold_sheet_metrics:
  "fold (\<lambda>(sheet_name, df). sheet_metrics qdate qteam df) dfs m k =
     m k + (\<Sum>(sheet_name, df)\<leftarrow>dfs. sheet_count qdate qteam df k)"
  by (induction dfs arbitrary: m) (auto simp: sheet_metrics_apply)

lemma daily_counts_sum:
  "daily_counts dfs qdate qteam k = (\<Sum>(sheet_name, df)\<leftarrow>dfs. sheet_count qdate qteam df k)"
  by (simp add: daily_counts_def fold_sheet_metrics)

lemma metric_value_get_daily_metrics:
  "metric_value (get_daily_metrics dfs qdate qteam) k = daily_counts dfs qdate qteam k"
  by (cases k) (simp_all add: metric_value_def get_daily_metrics_def Let_def)

lemma team_mask_no_equipe: "equipe_col_of cs = None \<Longrightarrow> team_mask t cs r"
  by (simp add: team_mask_def split: option.splits)

lemma team_mask_None [simp]: "team_mask None cs r"
  by (simp add: team_mask_def)

lemma equipe_col_nonempty: "equipe_col_of cs = Some ec \<Longrightarrow> ec \<noteq> []"
  by (auto simp: equipe_col_of_def find_Some_iff)

lemma team_mask_Some:
  "equipe_col_of cs = Some ec \<Longrightarrow> t \<noteq> [] \<Longrightarrow>
   team_mask (Some t) cs r = (py_upper (astype_str (r ec)) = py_upper t)"
  by (simp add: team_mask_def equipe_col_nonempty)

section \<open>Evaluation of the example sheets\<close>

lemmas example_defs =
  sheet_with_teams_def sheet_without_equipe_def sheet_undated_def example_row_def
  example_day_def sheet_count_def team_mask_def date_mask_def date_columns_def on_date_def
  date_of_def ns_per_day_def row_hit_def status_hit_def channel_hit_def contains_any_def
  RESOLVIDO_PATTERNS_def ANALISE_PATTERNS_def ATIVO_RECEPTIVO_def get_situacao_column_def
  possible_columns_def equipe_col_of_def mask_sum_def upper_cp_def

lemma example_all_teams:
  "daily_counts [(ascii ''S1'', sheet_with_teams), (ascii ''S2'', sheet_without_equipe)]
     (example_day + 3600000000000) None Resolvidos = 3"
  "daily_counts [(ascii ''S1'', sheet_with_teams)] (example_day + 3600000000000) None
     Resolvidos = 2"
  "daily_counts [(ascii ''S1'', sheet_with_teams)] (example_day + 3600000000000) None
     Quitado = 1"
  "daily_counts [(ascii ''S2'', sheet_without_equipe)] (example_day + 3600000000000) None
     Resolvidos = 1"
  by (simp_all add: daily_counts_sum example_defs)

lemma example_one_team:
  "daily_counts [(ascii ''S1'', sheet_with_teams), (ascii ''S2'', sheet_without_equipe)]
     (example_day + 3600000000000) (Some (ascii ''Equipe A'')) Resolvidos = 2"
  "daily_counts [(ascii ''S1'', sheet_with_teams), (ascii ''S2'', sheet_without_equipe)]
     (example_day + 3600000000000) (Some (ascii ''Equipe B'')) Resolvidos = 2"
  "daily_counts [(ascii ''S1'', sheet_with_teams), (ascii ''S2'', sheet_without_equipe)]
     (example_day + 3600000000000) (Some SEM_RESPONSAVEL) Resolvidos = 1"
  "daily_counts [(ascii ''S1'', sheet_with_teams), (ascii ''S2'', sheet_without_equipe)]
     (example_day + 3600000000000) (Some OUTROS) Resolvidos = 1"
  "daily_counts [(ascii ''S1'', sheet_with_teams)]
     (example_day + 3600000000000) (Some (ascii ''Equipe A'')) Resolvidos = 1"
  "daily_counts [(ascii ''S1'', sheet_with_teams)]
     (example_day + 3600000000000) (Some (ascii ''equipe b'')) Resolvidos = 1"
  by (simp_all add: daily_counts_sum example_defs SEM_RESPONSAVEL_def OUTROS_def)

section \<open>Properties of the chunked metrics\<close>

text \<open>
  One pass of the loop over the chunks adds to every counter the number of rows of the
  chunk that are selected and hit the counter.
\<close>

lemma chunk_metrics_apply:
  "chunk_metrics qdate qteam df chunk m k = m k + chunk_count qdate qteam df k chunk"
proof (cases "get_situacao_column (columns df)")
  case None
  then show ?thesis by (simp add: chunk_metrics_def chunk_count_def Let_def)
next
  case (Some sc)
  then have cols: "columns df \<noteq> []" by (rule get_situacao_column_Some_columns)
  let ?sel = "\<lambda>r. team_mask qteam (columns df) r \<and> date_mask date_columns_dashboard df qdate r"
  let ?st = "\<lambda>r. py_strip (py_upper (astype_str (r sc)))"
  have cnt: "\<And>k. chunk_count qdate qteam df k chunk =
                 mask_sum (row_hit_dashboard df sc qdate k) (filter ?sel chunk)"
    by (simp add: chunk_count_def Some mask_sum_filter)
  have sel: "(if (if chunk = [] then chunk else filter_team qteam (df\<lparr>rows := chunk\<rparr>)) = [] then []
              else filter (date_mask date_columns_dashboard df qdate)
                     (if chunk = [] then chunk else filter_team qteam (df\<lparr>rows := chunk\<rparr>)))
             = filter ?sel chunk"
    by (auto simp: filter_team_mask filter_empty_conv conj_commute)
  show ?thesis
  proof (cases "filter ?sel chunk = []")
    case True
    then show ?thesis
      by (simp add: chunk_metrics_def Let_def Some sel cnt)
  next
    case False
    have dia: "\<not> list_ex (\<lambda>r. status_hit Analise (?st r)) (filter ?sel chunk) \<Longrightarrow>
               mask_sum (\<lambda>r. status_hit Analise (?st r) \<and> on_date qdate (r (ascii ''DATA'')))
                 (filter ?sel chunk) = 0"
      by (rule mask_sum_none)
    show ?thesis
      using False cols dia
      by (cases k)
        (auto simp add: chunk_metrics_def Let_def Some sel cnt add_to_def
          row_hit_dashboard_def [abs_def] status_hit_def channel_hit_def mask_sum_def
          filter_empty_conv
          simp del: ascii_simps)
  qed
qed

lemma fold_chunk_metrics:
  "fold (chunk_metrics qdate qteam df) cs m k =
     m k + (\<Sum>c\<leftarrow>cs. chunk_count qdate qteam df k c)"
  by (induction cs arbitrary: m) (auto simp: chunk_metrics_apply)

text \<open>The chunks of a list, of any positive size, put together give the list back.\<close>

lemma concat_chunks: "0 < n \<Longrightarrow> concat (chunks n xs) = xs"
proof (induction n xs rule: chunks.induct)
  case (1 n xs)
  show ?case
  proof (cases "xs = []")
    case True
    then show ?thesis by (simp add: chunks.simps [of n "[]"])
  next
    case False
    with 1 show ?thesis by (simp add: chunks.simps [of n xs])
  qed
qed

lemma sum_mask_sum_concat: "(\<Sum>c\<leftarrow>cs. mask_sum P c) = mask_sum P (concat cs)"
  by (induction cs) (auto simp: mask_sum_def)

lemma sum_chunk_count:
  "0 < n \<Longrightarrow>
   (\<Sum>c\<leftarrow>chunks n xs. chunk_count qdate qteam df k c) = chunk_count qdate qteam df k xs"
  by (cases "get_situacao_column (columns df)")
     (simp_all add: chunk_count_def sum_mask_sum_concat concat_chunks)

lemma calculate_daily_metrics_sum:
  assumes "0 < n"
  shows "calculate_daily_metrics n dfs qdate qteam k =
           (\<Sum>(sheet_name, df)\<leftarrow>dfs.
               if df_empty df then 0 else chunk_count qdate qteam df k (rows df))"
proof -
  have "fold (\<lambda>(sheet_name, df) m.
                   if df_empty df then m
                   else fold (chunk_metrics qdate qteam df) (chunks n (rows df)) m) dfs m k
        = m k + (\<Sum>(sheet_name, df)\<leftarrow>dfs.
                    if df_empty df then 0 else chunk_count qdate qteam df k (rows df))"
    for m
    using assms
    by (induction dfs arbitrary: m)
       (auto simp: fold_chunk_metrics sum_chunk_count)
  with assms show ?thesis
    by (simp add: calculate_daily_metrics_def)
qed


lemma chunk_count_Nil [simp]: "chunk_count qdate qteam df k [] = 0"
  by (simp add: chunk_count_def split: option.splits)

lemma sheet_chunk_count:
  "(if df_empty df then 0 else chunk_count qdate qteam df k (rows df)) =
     chunk_count qdate qteam df k (rows df)"
  by (auto simp: df_empty_def chunk_count_def get_situacao_column_def possible_columns_def)

text \<open>
  Stripping the status text changes none of the keyword tests, since no keyword begins
  or ends with white space; and the date columns of \<open>get_daily_metrics\<close> are date
  columns of the dashboard script too.
\<close>

lemma status_hit_strip: "status_hit k (py_strip s) = status_hit k s"
  by (cases k)
     (simp_all add: status_hit_def contains_any_def RESOLVIDO_PATTERNS_def ANALISE_PATTERNS_def
        str_contains_strip isspace_def)

lemma channel_hit_strip: "channel_hit k (py_strip s) c = channel_hit k s c"
  by (cases k) (simp_all add: channel_hit_def contains_any_def str_contains_strip isspace_def)

lemma date_mask_dashboard:
  "date_mask date_columns df d r \<Longrightarrow> date_mask date_columns_dashboard df d r"
  by (auto simp: date_mask_def date_columns_def date_columns_dashboard_def)

text \<open>
  C6. For every set of loaded sheets, every date and every team selection, the metrics
  computed in chunks of one row are the metrics computed in chunks of 10,000 rows; every
  positive chunk size gives the same result, a chunk as large as the table included.
\<close>

theorem chunk_size_invariance:
  "calculate_daily_metrics 1 dfs qdate qteam = calculate_daily_metrics 10000 dfs qdate qteam
   \<and> calculate_daily_metrics (Suc n) dfs qdate qteam = calculate_daily_metrics 1 dfs qdate qteam"
  by (auto simp: fun_eq_iff calculate_daily_metrics_sum)

theorem chunk_size_invariance_witness:
  "calculate_daily_metrics 10000
     [(ascii ''S1'', sheet_with_teams), (ascii ''S2'', sheet_without_equipe)]
     (example_day + 3600000000000) None Resolvidos = 3
   \<and> calculate_daily_metrics 1
     [(ascii ''S1'', sheet_with_teams), (ascii ''S2'', sheet_without_equipe)]
     (example_day + 3600000000000) None Resolvidos = 3"
proof -
  let ?dfs = "[(ascii ''S1'', sheet_with_teams), (ascii ''S2'', sheet_without_equipe)]"
  let ?d = "example_day + 3600000000000"
  have big: "calculate_daily_metrics 10000 ?dfs ?d None Resolvidos = 3"
    by (simp add: calculate_daily_metrics_sum df_empty_def chunk_count_def
        row_hit_dashboard_def date_columns_dashboard_def py_strip_def isspace_def example_defs)
  from chunk_size_invariance [of ?dfs ?d None]
  have "calculate_daily_metrics 1 ?dfs ?d None = calculate_daily_metrics 10000 ?dfs ?d None"
    by (rule conjunct1)
  with big show ?thesis by simp
qed

section \<open>Sheets without a team column\<close>

lemma sheet_count_no_equipe:
  "equipe_col_of (columns df) = None \<Longrightarrow> sheet_count d t df k = sheet_count d None df k"
  by (simp add: sheet_count_def team_mask_no_equipe split: option.splits)

lemma chunk_count_no_equipe:
  "equipe_col_of (columns df) = None \<Longrightarrow>
   chunk_count d t df k chunk = chunk_count d None df k chunk"
  by (simp add: chunk_count_def team_mask_no_equipe split: option.splits)

text \<open>
  C10. A sheet that has no column whose upper-cased name contains EQUIPE is not
  filtered: for every team and date, and wherever the sheet stands among the loaded
  sheets, it adds to every counter of the team's result what it adds to the result for
  all teams. This holds for \<open>get_daily_metrics\<close> and, with any positive chunk size, for
  \<open>calculate_daily_metrics\<close>.
\<close>

theorem sheet_without_equipe_not_filtered:
  assumes "equipe_col_of (columns df) = None"
  shows "metric_value (get_daily_metrics (xs @ [(n, df)] @ ys) d t) k =
           metric_value (get_daily_metrics (xs @ ys) d t) k
           + metric_value (get_daily_metrics [(n, df)] d None) k
         \<and> calculate_daily_metrics (Suc c) (xs @ [(n, df)] @ ys) d t k =
           calculate_daily_metrics (Suc c) (xs @ ys) d t k
           + calculate_daily_metrics (Suc c) [(n, df)] d None k"
proof
  show "metric_value (get_daily_metrics (xs @ [(n, df)] @ ys) d t) k =
           metric_value (get_daily_metrics (xs @ ys) d t) k
           + metric_value (get_daily_metrics [(n, df)] d None) k"
    using assms
    by (simp add: metric_value_get_daily_metrics daily_counts_sum
        sheet_count_no_equipe [of df d t])
  show "calculate_daily_metrics (Suc c) (xs @ [(n, df)] @ ys) d t k =
           calculate_daily_metrics (Suc c) (xs @ ys) d t k
           + calculate_daily_metrics (Suc c) [(n, df)] d None k"
    using assms
    by (simp add: calculate_daily_metrics_sum chunk_count_no_equipe [of df d t])
qed

theorem sheet_without_equipe_not_filtered_witness:
  "equipe_col_of (columns sheet_without_equipe) = None
   \<and> metric_value (get_daily_metrics [(ascii ''S2'', sheet_without_equipe)]
         (example_day + 3600000000000) None) Resolvidos = 1
   \<and> metric_value (get_daily_metrics
         [(ascii ''S1'', sheet_with_teams), (ascii ''S2'', sheet_without_equipe)]
         (example_day + 3600000000000) (Some (ascii ''Equipe A''))) Resolvidos
     = metric_value (get_daily_metrics [(ascii ''S1'', sheet_with_teams)]
         (example_day + 3600000000000) (Some (ascii ''Equipe A''))) Resolvidos + 1"
proof -
  have h: "equipe_col_of (columns sheet_without_equipe) = None"
    by (simp add: sheet_without_equipe_def equipe_col_of_def upper_cp_def)
  have one: "metric_value (get_daily_metrics [(ascii ''S2'', sheet_without_equipe)]
         (example_day + 3600000000000) None) Resolvidos = 1"
    by (simp only: metric_value_get_daily_metrics example_all_teams)
  from sheet_without_equipe_not_filtered
         [OF h, of "[(ascii ''S1'', sheet_with_teams)]" "ascii ''S2''" "[]"
            "example_day + 3600000000000" "Some (ascii ''Equipe A'')" Resolvidos,
          THEN conjunct1]
  have "metric_value (get_daily_metrics
         [(ascii ''S1'', sheet_with_teams), (ascii ''S2'', sheet_without_equipe)]
         (example_day + 3600000000000) (Some (ascii ''Equipe A''))) Resolvidos
     = metric_value (get_daily_metrics [(ascii ''S1'', sheet_with_teams)]
         (example_day + 3600000000000) (Some (ascii ''Equipe A''))) Resolvidos + 1"
    by (simp only: one append.simps)
  with h one show ?thesis by (intro conjI)
qed

section \<open>No matching data\<close>

lemma sheet_count_no_match:
  assumes "\<forall>r \<in> set (rows df). \<not> (team_mask t (columns df) r \<and> date_mask date_columns df d r)"
  shows "sheet_count d t df k = 0"
  using assms by (auto simp: sheet_count_def mask_sum_def filter_empty_conv split: option.splits)

lemma daily_counts_no_match:
  assumes "\<forall>(n, df) \<in> set dfs. \<forall>r \<in> set (rows df).
             \<not> (team_mask t (columns df) r \<and> date_mask date_columns df d r)"
  shows "daily_counts dfs d t k = 0"
proof -
  have "\<forall>x \<in> set dfs. (case x of (n, df) \<Rightarrow> sheet_count d t df k) = 0"
    using assms sheet_count_no_match by fastforce
  then show ?thesis
    by (simp add: daily_counts_sum)
qed

text \<open>
  C9, as the code has it. Let every row of a loaded sheet that falls on the date lie in a
  sheet that has a team column and carry there a team other than the one asked for, up
  to case (for a query without a team: let no row fall on the date); this includes the
  state where no sheet is loaded. Then \<open>get_daily_metrics\<close> returns the record for that
  date and team with every counter at zero. The function is total on the modelled
  frames: there is no branch that raises.
\<close>

theorem no_matching_data_gives_zero_metrics:
  assumes "\<forall>(n, df) \<in> set dfs. \<forall>r \<in> set (rows df).
             date_mask date_columns df d r \<longrightarrow>
             (\<exists>tm ec. t = Some tm \<and> tm \<noteq> [] \<and> equipe_col_of (columns df) = Some ec
                      \<and> py_upper (astype_str (r ec)) \<noteq> py_upper tm)"
  shows "get_daily_metrics dfs d t =
           \<lparr> date = d, team = t, resolvidos = 0, pendente_ativo = 0, pendente_receptivo = 0,
             prioridade = 0, prioridade_total = 0, soma_prioridades = 0, analise = 0,
             analise_dia = 0, receptivo = 0, quitado_cliente = 0, quitado = 0, aprovados = 0 \<rparr>"
proof -
  have "\<forall>(n, df) \<in> set dfs. \<forall>r \<in> set (rows df).
          \<not> (team_mask t (columns df) r \<and> date_mask date_columns df d r)"
  proof (intro ballI, clarify)
    fix n df r
    assume in_dfs: "(n, df) \<in> set dfs" and in_rows: "r \<in> set (rows df)"
      and tmask: "team_mask t (columns df) r" and dmask: "date_mask date_columns df d r"
    from assms in_dfs in_rows dmask obtain tm ec
      where "t = Some tm" "tm \<noteq> []" "equipe_col_of (columns df) = Some ec"
        "py_upper (astype_str (r ec)) \<noteq> py_upper tm"
      by blast
    with tmask show False
      by (simp add: team_mask_Some)
  qed
  from daily_counts_no_match [OF this] show ?thesis
    by (simp add: get_daily_metrics_def Let_def)
qed

theorem no_matching_data_gives_zero_metrics_witness:
  "get_daily_metrics [] example_day None =
     \<lparr> date = example_day, team = None, resolvidos = 0, pendente_ativo = 0,
       pendente_receptivo = 0, prioridade = 0, prioridade_total = 0, soma_prioridades = 0,
       analise = 0, analise_dia = 0, receptivo = 0, quitado_cliente = 0, quitado = 0,
       aprovados = 0 \<rparr>
   \<and> get_daily_metrics [(ascii ''S1'', sheet_with_teams)]
       (example_day + 3600000000000) (Some (ascii ''Equipe Z'')) =
     \<lparr> date = example_day + 3600000000000, team = Some (ascii ''Equipe Z''), resolvidos = 0,
       pendente_ativo = 0, pendente_receptivo = 0, prioridade = 0, prioridade_total = 0,
       soma_prioridades = 0, analise = 0, analise_dia = 0, receptivo = 0, quitado_cliente = 0,
       quitado = 0, aprovados = 0 \<rparr>"
proof (rule conjI)
  show "get_daily_metrics [] example_day None =
     \<lparr> date = example_day, team = None, resolvidos = 0, pendente_ativo = 0,
       pendente_receptivo = 0, prioridade = 0, prioridade_total = 0, soma_prioridades = 0,
       analise = 0, analise_dia = 0, receptivo = 0, quitado_cliente = 0, quitado = 0,
       aprovados = 0 \<rparr>"
    by (rule no_matching_data_gives_zero_metrics) simp
  show "get_daily_metrics [(ascii ''S1'', sheet_with_teams)]
       (example_day + 3600000000000) (Some (ascii ''Equipe Z'')) =
     \<lparr> date = example_day + 3600000000000, team = Some (ascii ''Equipe Z''), resolvidos = 0,
       pendente_ativo = 0, pendente_receptivo = 0, prioridade = 0, prioridade_total = 0,
       soma_prioridades = 0, analise = 0, analise_dia = 0, receptivo = 0, quitado_cliente = 0,
       quitado = 0, aprovados = 0 \<rparr>"
    by (rule no_matching_data_gives_zero_metrics) (simp add: example_defs)
qed

text \<open>
  C9 as stated fails. The sheet \<open>sheet_without_equipe\<close> has no team column, and no cell of
  it holds the text Equipe Z, so no loaded data matches that team; yet for the day of
  its first row the result for team Equipe Z counts one resolved row, because a sheet
  without a team column is not filtered by team.
\<close>

theorem no_data_for_team_counterexample:
  "equipe_col_of (columns sheet_without_equipe) = None
   \<and> list_all (\<lambda>r. list_all (\<lambda>col. py_upper (astype_str (r col))
                                    \<noteq> py_upper (ascii ''Equipe Z''))
                  (columns sheet_without_equipe))
        (rows sheet_without_equipe)
   \<and> resolvidos (get_daily_metrics [(ascii ''S2'', sheet_without_equipe)]
        (example_day + 3600000000000) (Some (ascii ''Equipe Z''))) = 1"
  by (simp add: get_daily_metrics_def Let_def daily_counts_sum example_defs)

section \<open>Status categories are counted independently\<close>

lemma sheet_count_row:
  assumes "get_situacao_column (columns df) = Some sc"
    and "team_mask t (columns df) r" and "date_mask date_columns df d r"
  shows "sheet_count d t (df\<lparr>rows := rs1 @ r # rs2\<rparr>) k =
           sheet_count d t (df\<lparr>rows := rs1 @ rs2\<rparr>) k + (if row_hit df sc k r then 1 else 0)"
  using assms
  by (simp add: sheet_count_def mask_sum_def date_mask_def row_hit_def)

lemma metric_value_row:
  assumes "get_situacao_column (columns df) = Some sc"
    and "team_mask t (columns df) r" and "date_mask date_columns df d r"
  shows "metric_value (get_daily_metrics (xs @ [(n, df\<lparr>rows := rs1 @ r # rs2\<rparr>)] @ ys) d t) k =
         metric_value (get_daily_metrics (xs @ [(n, df\<lparr>rows := rs1 @ rs2\<rparr>)] @ ys) d t) k
           + (if row_hit df sc k r then 1 else 0)"
  by (simp add: metric_value_get_daily_metrics daily_counts_sum sheet_count_row [OF assms])

lemma row_hit_dashboard_row_hit:
  "row_hit_dashboard df sc d k r \<longleftrightarrow>
     row_hit df sc k r
     \<or> (k = Analise_Dia \<and> ascii ''DATA'' \<in> set (columns df) \<and> datetime64 df (ascii ''DATA'')
         \<and> status_hit Analise (py_upper (astype_str (r sc)))
         \<and> on_date d (r (ascii ''DATA'')))"
  by (simp add: row_hit_dashboard_def row_hit_def status_hit_strip channel_hit_strip
      del: ascii_simps)

lemma chunk_count_row:
  assumes "get_situacao_column (columns df) = Some sc"
    and "team_mask t (columns df) r" and "date_mask date_columns_dashboard df d r"
  shows "chunk_count d t (df\<lparr>rows := rs\<rparr>) k (rs1 @ r # rs2) =
           chunk_count d t (df\<lparr>rows := rs'\<rparr>) k (rs1 @ rs2)
           + (if row_hit_dashboard df sc d k r then 1 else 0)"
  using assms
  by (simp add: chunk_count_def mask_sum_def date_mask_def row_hit_dashboard_def)

lemma calculate_daily_metrics_row:
  assumes "get_situacao_column (columns df) = Some sc"
    and "team_mask t (columns df) r" and "date_mask date_columns_dashboard df d r"
  shows "calculate_daily_metrics (Suc c) (xs @ [(n, df\<lparr>rows := rs1 @ r # rs2\<rparr>)] @ ys) d t k =
         calculate_daily_metrics (Suc c) (xs @ [(n, df\<lparr>rows := rs1 @ rs2\<rparr>)] @ ys) d t k
           + (if row_hit_dashboard df sc d k r then 1 else 0)"
  by (simp add: calculate_daily_metrics_sum sheet_chunk_count
      chunk_count_row [OF assms, of "rs1 @ r # rs2" k rs1 rs2 "rs1 @ rs2"])

text \<open>
  C5. A row \<open>r\<close> of a sheet that is counted for the date (it passes the team filter and
  the date mask) and whose upper-cased status text contains a keyword of the resolved
  category and the keyword of the settled category raises both counters: compared with
  the same sheets without that row, the resolved counter and the settled counter are
  each one higher, in \<open>get_daily_metrics\<close> and, with any positive chunk size, in
  \<open>calculate_daily_metrics\<close>.
\<close>

theorem status_counters_not_exclusive:
  assumes "get_situacao_column (columns df) = Some sc"
    and "team_mask t (columns df) r" and "date_mask date_columns df d r"
    and "contains_any (py_upper (astype_str (r sc))) RESOLVIDO_PATTERNS"
    and "contains_any (py_upper (astype_str (r sc))) [ascii ''QUITAD'']"
  shows "resolvidos (get_daily_metrics (xs @ [(n, df\<lparr>rows := rs1 @ r # rs2\<rparr>)] @ ys) d t) =
           resolvidos (get_daily_metrics (xs @ [(n, df\<lparr>rows := rs1 @ rs2\<rparr>)] @ ys) d t) + 1
         \<and> quitado (get_daily_metrics (xs @ [(n, df\<lparr>rows := rs1 @ r # rs2\<rparr>)] @ ys) d t) =
           quitado (get_daily_metrics (xs @ [(n, df\<lparr>rows := rs1 @ rs2\<rparr>)] @ ys) d t) + 1
         \<and> calculate_daily_metrics (Suc c) (xs @ [(n, df\<lparr>rows := rs1 @ r # rs2\<rparr>)] @ ys) d t
             Resolvidos =
           calculate_daily_metrics (Suc c) (xs @ [(n, df\<lparr>rows := rs1 @ rs2\<rparr>)] @ ys) d t
             Resolvidos + 1
         \<and> calculate_daily_metrics (Suc c) (xs @ [(n, df\<lparr>rows := rs1 @ r # rs2\<rparr>)] @ ys) d t
             Quitado =
           calculate_daily_metrics (Suc c) (xs @ [(n, df\<lparr>rows := rs1 @ rs2\<rparr>)] @ ys) d t
             Quitado + 1"
proof -
  have r: "row_hit df sc Resolvidos r" and q: "row_hit df sc Quitado r"
    using assms(4,5) by (simp_all add: row_hit_def status_hit_def del: ascii_simps)
  have r': "row_hit_dashboard df sc d Resolvidos r" and q': "row_hit_dashboard df sc d Quitado r"
    using r q by (simp_all add: row_hit_dashboard_row_hit)
  note dm = date_mask_dashboard [OF assms(3)]
  from metric_value_row [OF assms(1-3), of xs n rs1 rs2 ys Resolvidos]
       metric_value_row [OF assms(1-3), of xs n rs1 rs2 ys Quitado] r q
  have service:
    "resolvidos (get_daily_metrics (xs @ [(n, df\<lparr>rows := rs1 @ r # rs2\<rparr>)] @ ys) d t) =
       resolvidos (get_daily_metrics (xs @ [(n, df\<lparr>rows := rs1 @ rs2\<rparr>)] @ ys) d t) + 1"
    "quitado (get_daily_metrics (xs @ [(n, df\<lparr>rows := rs1 @ r # rs2\<rparr>)] @ ys) d t) =
       quitado (get_daily_metrics (xs @ [(n, df\<lparr>rows := rs1 @ rs2\<rparr>)] @ ys) d t) + 1"
    by (simp_all add: metric_value_def)
  from calculate_daily_metrics_row [OF assms(1,2) dm, of c xs n rs1 rs2 ys Resolvidos]
       calculate_daily_metrics_row [OF assms(1,2) dm, of c xs n rs1 rs2 ys Quitado] r' q'
  have dashboard:
    "calculate_daily_metrics (Suc c) (xs @ [(n, df\<lparr>rows := rs1 @ r # rs2\<rparr>)] @ ys) d t
       Resolvidos =
     calculate_daily_metrics (Suc c) (xs @ [(n, df\<lparr>rows := rs1 @ rs2\<rparr>)] @ ys) d t
       Resolvidos + 1"
    "calculate_daily_metrics (Suc c) (xs @ [(n, df\<lparr>rows := rs1 @ r # rs2\<rparr>)] @ ys) d t
       Quitado =
     calculate_daily_metrics (Suc c) (xs @ [(n, df\<lparr>rows := rs1 @ rs2\<rparr>)] @ ys) d t
       Quitado + 1"
    by simp_all
  from service dashboard show ?thesis by (intro conjI)
qed

theorem status_counters_not_exclusive_witness:
  "resolvidos (get_daily_metrics [(ascii ''S1'', sheet_with_teams)]
      (example_day + 3600000000000) None) = 2
   \<and> quitado (get_daily_metrics [(ascii ''S1'', sheet_with_teams)]
      (example_day + 3600000000000) None) = 1"
proof -
  let ?r = "example_row (Some example_day) (ascii ''Equipe B'') (ascii ''Resolvido e quitado'')"
  let ?first = "example_row (Some example_day) (ascii ''Equipe A'') (ascii ''Resolvido'')"
  let ?d = "example_day + 3600000000000"
  have h1: "get_situacao_column (columns sheet_with_teams) = Some (ascii ''STATUS'')"
    by (simp add: example_defs)
  have h2: "team_mask None (columns sheet_with_teams) ?r"
    by simp
  have h3: "date_mask date_columns sheet_with_teams ?d ?r"
    by (simp add: example_defs)
  have h4: "contains_any (py_upper (astype_str (?r (ascii ''STATUS'')))) RESOLVIDO_PATTERNS"
    by (simp add: example_defs)
  have h5: "contains_any (py_upper (astype_str (?r (ascii ''STATUS'')))) [ascii ''QUITAD'']"
    by (simp add: example_defs)
  have with_row: "sheet_with_teams\<lparr>rows := [?first] @ ?r # []\<rparr> = sheet_with_teams"
    by (simp add: sheet_with_teams_def)
  have without:
    "resolvidos (get_daily_metrics ([] @ [(ascii ''S1'', sheet_with_teams\<lparr>rows := [?first] @ []\<rparr>)] @ [])
        ?d None) = 1"
    "quitado (get_daily_metrics ([] @ [(ascii ''S1'', sheet_with_teams\<lparr>rows := [?first] @ []\<rparr>)] @ [])
        ?d None) = 0"
    by (simp_all add: get_daily_metrics_def Let_def daily_counts_sum example_defs)
  from status_counters_not_exclusive [OF h1 h2 h3 h4 h5, of "[]" "ascii ''S1''" "[?first]" "[]" "[]"]
  have "resolvidos (get_daily_metrics ([] @ [(ascii ''S1'', sheet_with_teams)] @ []) ?d None) =
          1 + 1
        \<and> quitado (get_daily_metrics ([] @ [(ascii ''S1'', sheet_with_teams)] @ []) ?d None) =
          0 + 1"
    unfolding without with_row by blast
  then show ?thesis
    by simp
qed

section \<open>Sum over the teams\<close>

lemma sum_list_indicator:
  "distinct (map f ts) \<Longrightarrow>
   (\<Sum>t\<leftarrow>ts. if y = f t then (1::nat) else 0) = (if y \<in> f ` set ts then 1 else 0)"
  by (induction ts) auto

lemma sum_list_partition_count:
  assumes "distinct (map f ts)"
    and "\<forall>x \<in> set xs. Q x \<longrightarrow> g x \<in> f ` set ts"
  shows "(\<Sum>t\<leftarrow>ts. length (filter (\<lambda>x. g x = f t \<and> Q x) xs)) = length (filter Q xs)"
  using assms(2)
proof (induction xs)
  case Nil
  then show ?case by simp
next
  case (Cons x xs)
  have split: "(\<Sum>t\<leftarrow>ts. length (filter (\<lambda>x. g x = f t \<and> Q x) (x # xs))) =
        (\<Sum>t\<leftarrow>ts. if g x = f t \<and> Q x then (1::nat) else 0)
        + (\<Sum>t\<leftarrow>ts. length (filter (\<lambda>x. g x = f t \<and> Q x) xs))"
  proof -
    have "\<And>t. length (filter (\<lambda>x. g x = f t \<and> Q x) (x # xs)) =
            (if g x = f t \<and> Q x then (1::nat) else 0)
            + length (filter (\<lambda>x. g x = f t \<and> Q x) xs)"
      by simp
    then show ?thesis
      by (simp only: sum_list_addf)
  qed
  have one: "(\<Sum>t\<leftarrow>ts. if g x = f t \<and> Q x then (1::nat) else 0) = (if Q x then 1 else 0)"
  proof (cases "Q x")
    case True
    with Cons.prems have "g x \<in> f ` set ts" by simp
    with True show ?thesis
      using sum_list_indicator [OF assms(1), of "g x"] by simp
  next
    case False
    then show ?thesis by simp
  qed
  from Cons have ih:
    "(\<Sum>t\<leftarrow>ts. length (filter (\<lambda>x. g x = f t \<and> Q x) xs)) = length (filter Q xs)"
    by simp
  show ?case
    unfolding split one ih by simp
qed

lemma sheet_count_sum_teams:
  assumes ec: "equipe_col_of (columns df) = Some ec"
    and ne: "[] \<notin> set ts"
    and dist: "distinct (map py_upper ts)"
    and cov: "\<forall>r \<in> set (rows df). date_mask date_columns df d r \<longrightarrow>
                py_upper (astype_str (r ec)) \<in> py_upper ` set ts"
  shows "(\<Sum>t\<leftarrow>ts. sheet_count d (Some t) df k) = sheet_count d None df k"
proof (cases "get_situacao_column (columns df)")
  case None
  then show ?thesis by (simp add: sheet_count_def)
next
  case (Some sc)
  let ?Q = "\<lambda>r. date_mask date_columns df d r \<and> row_hit df sc k r"
  have "(\<Sum>t\<leftarrow>ts. sheet_count d (Some t) df k) =
        (\<Sum>t\<leftarrow>ts. length (filter (\<lambda>r. py_upper (astype_str (r ec)) = py_upper t \<and> ?Q r)
                         (rows df)))"
  proof -
    have "\<And>t. t \<in> set ts \<Longrightarrow> t \<noteq> []"
      using ne by auto
    then show ?thesis
      by (intro arg_cong [where f = sum_list] map_cong refl)
        (simp add: sheet_count_def Some mask_sum_def team_mask_Some [OF ec])
  qed
  also have "\<dots> = length (filter ?Q (rows df))"
    using cov by (intro sum_list_partition_count [OF dist]) auto
  also have "\<dots> = sheet_count d None df k"
    by (simp add: sheet_count_def Some mask_sum_def)
  finally show ?thesis .
qed

text \<open>
  C3, as the code has it. Let every loaded sheet have a team column, and let \<open>ts\<close> list
  team names, none empty and no two equal up to case, such that the team text of every
  row on the date (a missing team reads \<open>nan\<close>) is one of them up to case. Then every
  counter of the result for all teams is the sum of that counter over the results for
  the teams of \<open>ts\<close>. There is no separate bucket for a missing or unknown team.
\<close>

theorem all_teams_equals_sum_over_teams:
  assumes "\<forall>(n, df) \<in> set dfs. equipe_col_of (columns df) \<noteq> None"
    and "[] \<notin> set ts"
    and "distinct (map py_upper ts)"
    and "\<forall>(n, df) \<in> set dfs. \<forall>r \<in> set (rows df). \<forall>ec.
           equipe_col_of (columns df) = Some ec \<longrightarrow> date_mask date_columns df d r \<longrightarrow>
           py_upper (astype_str (r ec)) \<in> py_upper ` set ts"
  shows "metric_value (get_daily_metrics dfs d None) k =
           (\<Sum>t\<leftarrow>ts. metric_value (get_daily_metrics dfs d (Some t)) k)"
  using assms(1,4)
proof (induction dfs)
  case Nil
  then show ?case by (simp add: metric_value_get_daily_metrics daily_counts_sum)
next
  case (Cons p dfs)
  obtain n df where p: "p = (n, df)" by (cases p)
  from Cons.prems(1) p obtain ec where ec: "equipe_col_of (columns df) = Some ec" by auto
  from Cons.prems(2) p ec have cov: "\<forall>r \<in> set (rows df). date_mask date_columns df d r \<longrightarrow>
                py_upper (astype_str (r ec)) \<in> py_upper ` set ts" by auto
  have ih: "daily_counts dfs d None k = (\<Sum>t\<leftarrow>ts. daily_counts dfs d (Some t) k)"
    using Cons.IH Cons.prems by (simp add: metric_value_get_daily_metrics)
  have "(\<Sum>t\<leftarrow>ts. daily_counts (p # dfs) d (Some t) k) =
        (\<Sum>t\<leftarrow>ts. sheet_count d (Some t) df k) + (\<Sum>t\<leftarrow>ts. daily_counts dfs d (Some t) k)"
    by (simp add: daily_counts_sum p sum_list_addf)
  also have "\<dots> = sheet_count d None df k + daily_counts dfs d None k"
    by (simp add: sheet_count_sum_teams [OF ec assms(2,3) cov] ih)
  also have "\<dots> = daily_counts (p # dfs) d None k"
    by (simp add: daily_counts_sum p)
  finally show ?case
    by (simp add: metric_value_get_daily_metrics)
qed

theorem all_teams_equals_sum_over_teams_witness:
  "metric_value (get_daily_metrics [(ascii ''S1'', sheet_with_teams)]
      (example_day + 3600000000000) None) Resolvidos = 2
   \<and> metric_value (get_daily_metrics [(ascii ''S1'', sheet_with_teams)]
      (example_day + 3600000000000) (Some (ascii ''Equipe A''))) Resolvidos = 1
   \<and> metric_value (get_daily_metrics [(ascii ''S1'', sheet_with_teams)]
      (example_day + 3600000000000) (Some (ascii ''equipe b''))) Resolvidos = 1"
proof -
  let ?dfs = "[(ascii ''S1'', sheet_with_teams)]"
  let ?d = "example_day + 3600000000000"
  let ?ts = "[ascii ''Equipe A'', ascii ''equipe b'']"
  have h1: "\<forall>(n, df) \<in> set ?dfs. equipe_col_of (columns df) \<noteq> None"
    by (simp add: example_defs)
  have h2: "[] \<notin> set ?ts"
    by simp
  have h3: "distinct (map py_upper ?ts)"
    by (simp add: upper_cp_def)
  have h4: "\<forall>(n, df) \<in> set ?dfs. \<forall>r \<in> set (rows df). \<forall>ec.
           equipe_col_of (columns df) = Some ec \<longrightarrow> date_mask date_columns df ?d r \<longrightarrow>
           py_upper (astype_str (r ec)) \<in> py_upper ` set ?ts"
    by (simp add: example_defs)
  from all_teams_equals_sum_over_teams [OF h1 h2 h3 h4, of Resolvidos]
  have total: "metric_value (get_daily_metrics ?dfs ?d None) Resolvidos =
      metric_value (get_daily_metrics ?dfs ?d (Some (ascii ''Equipe A''))) Resolvidos
      + metric_value (get_daily_metrics ?dfs ?d (Some (ascii ''equipe b''))) Resolvidos"
    by simp
  have a: "metric_value (get_daily_metrics ?dfs ?d (Some (ascii ''Equipe A''))) Resolvidos = 1"
    by (simp only: metric_value_get_daily_metrics example_one_team)
  have b: "metric_value (get_daily_metrics ?dfs ?d (Some (ascii ''equipe b''))) Resolvidos = 1"
    by (simp only: metric_value_get_daily_metrics example_one_team)
  from total a b show ?thesis by simp
qed

text \<open>
  C3 as stated fails. With one sheet that has a team column (teams A and B, one
  resolved row each on the day) and one sheet without a team column (one resolved row on
  the day), the result for all teams counts 3 resolved rows, while the results for
  team A and team B count 2 each, because the sheet without a team column is counted in
  full for every team; buckets for a missing or unknown team would add one more each.
\<close>

theorem additivity_counterexample:
  "resolvidos (get_daily_metrics
      [(ascii ''S1'', sheet_with_teams), (ascii ''S2'', sheet_without_equipe)]
      (example_day + 3600000000000) None) = 3
   \<and> resolvidos (get_daily_metrics
      [(ascii ''S1'', sheet_with_teams), (ascii ''S2'', sheet_without_equipe)]
      (example_day + 3600000000000) (Some (ascii ''Equipe A''))) = 2
   \<and> resolvidos (get_daily_metrics
      [(ascii ''S1'', sheet_with_teams), (ascii ''S2'', sheet_without_equipe)]
      (example_day + 3600000000000) (Some (ascii ''Equipe B''))) = 2
   \<and> resolvidos (get_daily_metrics
      [(ascii ''S1'', sheet_with_teams), (ascii ''S2'', sheet_without_equipe)]
      (example_day + 3600000000000) (Some SEM_RESPONSAVEL)) = 1
   \<and> resolvidos (get_daily_metrics
      [(ascii ''S1'', sheet_with_teams), (ascii ''S2'', sheet_without_equipe)]
      (example_day + 3600000000000) (Some OUTROS)) = 1"
  by (simp add: get_daily_metrics_def Let_def example_all_teams [simplified]
      example_one_team [simplified])

section \<open>Properties of the date range\<close>
















end
